theory Spec2Isabelle
  imports Main "HOL-Library.Word"
begin

unbundle bit_operations_syntax

section \<open>The M29F160xT / MX29F800x flash driver (fw/m29f160xt.c)\<close>

text \<open>
  The driver bit-bangs a parallel NOR flash through GPIO lines. The embedding works at
  the level of bus cycles: \<open>ee_read_word\<close> and \<open>ee_write_word\<close> are the only two
  functions of the source that touch the pins for a device access, and each of their
  calls is recorded as one entry of the trace \<open>bus\<close> of the driver state. What the
  data pins show at a read and what the tick counter shows are not decided by the
  driver: they are taken from the \<open>platform\<close>, sample by sample. Console output,
  busy-wait delays and the masking of the USB interrupt have no effect on any value
  the driver computes and are left out.
\<close>

subsection \<open>Machine types and constants\<close>

type_synonym u8 = "8 word"
type_synonym u16 = "16 word"
type_synonym u32 = "32 word"
type_synonym u64 = "64 word"

definition EE_DEVICE_SIZE :: u32 where
  "EE_DEVICE_SIZE = push_bit 20 1"

definition MX_STATUS_FAIL_BITS :: u32 where
  "MX_STATUS_FAIL_BITS = push_bit 5 1 OR push_bit (5 + 16) 1"

definition EE_MODE_ERASE :: int where "EE_MODE_ERASE = 0"
definition EE_MODE_PROGRAM :: int where "EE_MODE_PROGRAM = 1"

definition EE_STATUS_NORMAL :: u32 where "EE_STATUS_NORMAL = 0"
definition EE_STATUS_ERASE_TIMEOUT :: u32 where "EE_STATUS_ERASE_TIMEOUT = 1"
definition EE_STATUS_PROG_TIMEOUT :: u32 where "EE_STATUS_PROG_TIMEOUT = 2"
definition EE_STATUS_ERASE_FAILURE :: u32 where "EE_STATUS_ERASE_FAILURE = 3"
definition EE_STATUS_PROG_FAILURE :: u32 where "EE_STATUS_PROG_FAILURE = 4"

text \<open>
  Modelled from the spec: the header m29f160xt.h, which defines the bus-width modes,
  the erase modes and the macro \<open>BIT\<close>, is not among the sources. The bus-width
  values follow the comment above \<open>ee_mode\<close> and the literals 0 and 1 that
  \<open>ee_enable\<close> compares with; the erase modes are the two of the spec (Chip, Sector),
  with Sector the largest valid value as \<open>ee_erase\<close> requires; \<open>BIT n\<close> is the
  word with only bit \<open>n\<close> set.
\<close>

definition EE_MODE_32 :: u32 where "EE_MODE_32 = 0"
definition EE_MODE_16_LOW :: u32 where "EE_MODE_16_LOW = 1"
definition EE_MODE_16_HIGH :: u32 where "EE_MODE_16_HIGH = 2"

definition MX_ERASE_MODE_CHIP :: u32 where "MX_ERASE_MODE_CHIP = 0"
definition MX_ERASE_MODE_SECTOR :: u32 where "MX_ERASE_MODE_SECTOR = 1"

definition BIT :: "nat \<Rightarrow> u32" where
  "BIT n = push_bit n 1"

subsection \<open>Platform and driver state\<close>

text \<open>
  The platform: \<open>data_pins k\<close> is what the data pins show at the \<open>k\<close>-th sample the
  driver takes, \<open>tick_source k\<close> what the tick counter shows at the driver's \<open>k\<close>-th
  call of \<open>timer_tick_get\<close>; the two conversions are the ones of timer.c, which is
  not among the sources; \<open>stack_junk\<close> is the content of a local variable that was
  never assigned.
\<close>

record platform =
  data_pins :: "nat \<Rightarrow> u32"
  tick_source :: "nat \<Rightarrow> u64"
  timer_tick_to_usec :: "u64 \<Rightarrow> u64"
  timer_nsec_to_tick :: "u32 \<Rightarrow> u32"
  stack_junk :: u32

datatype bus_op = BusRead u32 | BusWrite u32 u32

text \<open>
  The file-scope variables of the driver, and the three counters of the embedding:
  the bus cycles so far, the number of samples of the data pins and of the tick counter
  taken so far.
\<close>

record driver =
  ee_mode :: u32
  ee_cmd_mask :: u32
  ee_status :: u32
  ticks_per_15_nsec :: u32
  ticks_per_20_nsec :: u32
  ticks_per_30_nsec :: u32
  ee_last_access :: u64
  ee_enabled :: bool
  bus :: "bus_op list"
  nreads :: nat
  nticks :: nat

text \<open>The state the C initialisers give: 16-bit low mode, mask 0, status Normal.\<close>

definition driver_init :: driver where
  "driver_init = \<lparr>ee_mode = EE_MODE_16_LOW, ee_cmd_mask = 0, ee_status = EE_STATUS_NORMAL,
     ticks_per_15_nsec = 0, ticks_per_20_nsec = 0, ticks_per_30_nsec = 0,
     ee_last_access = 0, ee_enabled = False, bus = [], nreads = 0, nticks = 0\<rparr>"

definition timer_tick_get :: "platform \<Rightarrow> driver \<Rightarrow> u64 \<times> driver" where
  "timer_tick_get p s = (tick_source p (nticks s), s\<lparr>nticks := nticks s + 1\<rparr>)"

subsection \<open>Bus cycles and commands\<close>

definition ee_read_word :: "platform \<Rightarrow> u32 \<Rightarrow> driver \<Rightarrow> u32 \<times> driver" where
  "ee_read_word p addr s =
     (data_pins p (nreads s), s\<lparr>bus := bus s @ [BusRead addr], nreads := nreads s + 1\<rparr>)"

definition ee_write_word :: "u32 \<Rightarrow> u32 \<Rightarrow> driver \<Rightarrow> driver" where
  "ee_write_word addr data s = s\<lparr>bus := bus s @ [BusWrite addr (data AND ee_cmd_mask s)]\<rparr>"

definition ee_cmd :: "platform \<Rightarrow> u32 \<Rightarrow> u32 \<Rightarrow> driver \<Rightarrow> driver" where
  "ee_cmd p addr cmd s =
     (let (t, s1) = timer_tick_get p s;
          s2 = s1\<lparr>ee_last_access := t\<rparr>;
          cmd1 = (if ee_mode s2 = EE_MODE_32 then
                    (if drop_bit 16 cmd = 0 then cmd OR push_bit 16 cmd else cmd)
                  else if ee_mode s2 = EE_MODE_16_LOW then cmd
                  else if ee_mode s2 = EE_MODE_16_HIGH then
                    (if drop_bit 16 cmd = 0 then cmd OR push_bit 16 cmd else cmd)
                  else cmd)
      in if cmd1 AND 0xffff = 0x98 \<or> cmd1 AND 0xffff = 0xf0 \<or>
            cmd1 AND 0xffff = 0xb0 \<or> cmd1 AND 0xffff = 0x30
         then ee_write_word addr cmd1 s2
         else ee_write_word addr cmd1
                (ee_write_word 0x002aa 0x00550055 (ee_write_word 0x00555 0x00aa00aa s2)))"

definition ee_read_mode :: "platform \<Rightarrow> driver \<Rightarrow> driver" where
  "ee_read_mode p s = ee_cmd p 0x00555 0x00f000f0 s"

definition ee_status_clear :: "platform \<Rightarrow> driver \<Rightarrow> driver" where
  "ee_status_clear p s = ee_read_mode p (ee_cmd p 0x00000 0x00f000f0 s)"

subsection \<open>Enable and disable\<close>

definition ee_enable :: "platform \<Rightarrow> driver \<Rightarrow> driver" where
  "ee_enable p s =
     (if ee_enabled s then s
      else
        let s1 = s\<lparr>ticks_per_15_nsec := timer_nsec_to_tick p 15,
                   ticks_per_20_nsec := timer_nsec_to_tick p 20,
                   ticks_per_30_nsec := timer_nsec_to_tick p 30\<rparr>;
            s2 = s1\<lparr>ee_enabled := True\<rparr>;
            s3 = ee_read_mode p s2
        in if ee_mode s3 = 0 then s3\<lparr>ee_cmd_mask := 0xffffffff\<rparr>
           else if ee_mode s3 = 1 then s3\<lparr>ee_cmd_mask := 0x0000ffff\<rparr>
           else s3\<lparr>ee_cmd_mask := 0xffff0000\<rparr>)"

definition ee_disable :: "driver \<Rightarrow> driver" where
  "ee_disable s = s\<lparr>ee_enabled := False\<rparr>"

subsection \<open>Reading\<close>

text \<open>
  A store through the caller's buffer pointer: a 32-bit element in 32-bit mode, a
  16-bit element otherwise. \<open>ee_read\<close> returns the stores it made, in order.
\<close>

datatype stored = Store32 u32 | Store16 u16

function ee_read_loop32 :: "platform \<Rightarrow> u32 \<Rightarrow> u32 \<Rightarrow> driver \<Rightarrow> stored list \<times> driver" where
  "ee_read_loop32 p addr count s =
     (if count > 0 then
        (let (v, s1) = ee_read_word p addr s;
             (out, s2) = ee_read_loop32 p (addr + 1) (count - 1) s1
         in (Store32 v # out, s2))
      else ([], s))"
  by pat_completeness auto
termination
  by (relation "measure (\<lambda>(p, addr, count, s). unat count)")
     (auto simp: measure_unat)

function ee_read_loop16 :: "platform \<Rightarrow> u32 \<Rightarrow> u32 \<Rightarrow> driver \<Rightarrow> stored list \<times> driver" where
  "ee_read_loop16 p addr count s =
     (if count > 0 then
        (let (v, s1) = ee_read_word p addr s;
             x = (if ee_mode s1 = EE_MODE_16_LOW then Store16 (ucast v)
                  else Store16 (ucast (drop_bit 16 v)));
             (out, s2) = ee_read_loop16 p (addr + 1) (count - 1) s1
         in (x # out, s2))
      else ([], s))"
  by pat_completeness auto
termination
  by (relation "measure (\<lambda>(p, addr, count, s). unat count)")
     (auto simp: measure_unat)

definition ee_read :: "platform \<Rightarrow> u32 \<Rightarrow> u32 \<Rightarrow> driver \<Rightarrow> int \<times> stored list \<times> driver" where
  "ee_read p addr count s =
     (if addr + count > EE_DEVICE_SIZE then (1, [], s)
      else if ee_mode s = EE_MODE_32 then
        (let (out, s1) = ee_read_loop32 p addr count s in (0, out, s1))
      else
        (let (out, s1) = ee_read_loop16 p addr count s in (0, out, s1)))"

subsection \<open>The completion monitor\<close>

text \<open>
  The polling loop of \<open>ee_wait_for_done_status\<close>. It leaves in one of three ways:
  \<open>Some (True, _)\<close> is the return from inside the loop (two matches in a row), with
  the status already set to Normal; \<open>Some (False, status, _)\<close> is the loop left by
  its condition or by the \<open>break\<close> of the failure count, with the last status read.
  The loop need not end (a tick counter that stands still, a status that keeps
  changing): then the value is \<open>None\<close>.
\<close>

partial_function (option) ee_wait_loop ::
  "platform \<Rightarrow> u32 \<Rightarrow> u64 \<Rightarrow> u64 \<Rightarrow> u32 \<Rightarrow> u32 \<Rightarrow> int \<Rightarrow> int \<Rightarrow> driver
     \<Rightarrow> (bool \<times> u32 \<times> driver) option" where
  "ee_wait_loop p timeout_usec start usecs status lstatus same_count see_fail_count s =
     (if usecs < ucast timeout_usec then
        (let (now, s1) = timer_tick_get p s;
             usecs1 = timer_tick_to_usec p (now - start);
             (d, s2) = ee_read_word p 0x000000000 s1;
             status1 = d AND ee_cmd_mask s2
         in if status1 = lstatus \<and> same_count \<ge> 1 then
              Some (True, status1, s2\<lparr>ee_status := EE_STATUS_NORMAL\<rparr>)
            else
              (let same_count1 = (if status1 = lstatus then same_count + 1 else 0);
                   lstatus1 = (if status1 = lstatus then lstatus else status1)
               in if status1 AND MX_STATUS_FAIL_BITS \<noteq> 0 then
                    (if see_fail_count > 5 then Some (False, status1, s2)
                     else ee_wait_loop p timeout_usec start usecs1 status1 lstatus1
                            same_count1 (see_fail_count + 1) s2)
                  else ee_wait_loop p timeout_usec start usecs1 status1 lstatus1
                         same_count1 see_fail_count s2))
      else Some (False, status, s))"

declare ee_wait_loop.simps [code]

definition ee_wait_for_done_status ::
  "platform \<Rightarrow> u32 \<Rightarrow> int \<Rightarrow> int \<Rightarrow> driver \<Rightarrow> (int \<times> driver) option" where
  "ee_wait_for_done_status p timeout_usec verbose mode s =
     (let (start, s0) = timer_tick_get p s
      in case ee_wait_loop p timeout_usec start 0 0 0 0 0 s0 of
           None \<Rightarrow> None
         | Some (done, status, s1) \<Rightarrow>
             if done then Some (0, s1)
             else if status AND MX_STATUS_FAIL_BITS \<noteq> 0 then
               Some (1, ee_status_clear p
                          (s1\<lparr>ee_status := (if mode = EE_MODE_ERASE then EE_STATUS_ERASE_FAILURE
                                              else EE_STATUS_PROG_FAILURE)\<rparr>))
             else
               Some (1, ee_status_clear p
                          (s1\<lparr>ee_status := (if mode = EE_MODE_ERASE then EE_STATUS_ERASE_TIMEOUT
                                              else EE_STATUS_PROG_TIMEOUT)\<rparr>)))"

subsection \<open>Programming\<close>

definition ee_program_word :: "platform \<Rightarrow> u32 \<Rightarrow> u32 \<Rightarrow> driver \<Rightarrow> (int \<times> driver) option" where
  "ee_program_word p addr word s =
     ee_wait_for_done_status p 360 0 EE_MODE_PROGRAM
       (ee_write_word addr word
         (ee_write_word 0x00555 0x00a000a0
           (ee_write_word 0x002aa 0x00550055
             (ee_write_word 0x00555 0x00aa00aa s))))"

text \<open>
  The caller's buffer is the memory behind the pointer \<open>datap\<close>: \<open>mem k\<close> is the byte
  at \<open>datap + k\<close>. The target is little-endian.
\<close>

definition load16 :: "(nat \<Rightarrow> u8) \<Rightarrow> nat \<Rightarrow> u16" where
  "load16 mem off = ucast (mem off) OR push_bit 8 (ucast (mem (off + 1)))"

definition load32 :: "(nat \<Rightarrow> u8) \<Rightarrow> nat \<Rightarrow> u32" where
  "load32 mem off =
     ucast (mem off) OR push_bit 8 (ucast (mem (off + 1))) OR
     push_bit 16 (ucast (mem (off + 2))) OR push_bit 24 (ucast (mem (off + 3)))"

text \<open>The word the \<open>switch\<close> at the label \<open>try_again\<close> takes from the buffer.\<close>

definition ee_write_value :: "u32 \<Rightarrow> (nat \<Rightarrow> u8) \<Rightarrow> nat \<Rightarrow> u32" where
  "ee_write_value mode mem off =
     (if mode = EE_MODE_16_LOW then ucast (load16 mem off)
      else if mode = EE_MODE_16_HIGH then push_bit 16 (ucast (load16 mem off))
      else load32 mem off)"

text \<open>
  The \<open>while (count > 0)\<close> loop of \<open>ee_write\<close> with its label \<open>try_again\<close>: a jump
  to the label is a call with the same word and \<open>try_count + 1\<close>, the next turn of
  the loop a call with the next word and \<open>try_count = 0\<close>. The value is \<open>None\<close>
  when a completion poll does not end.
\<close>

function ee_write_loop ::
  "platform \<Rightarrow> (nat \<Rightarrow> u8) \<Rightarrow> nat \<Rightarrow> u32 \<Rightarrow> nat \<Rightarrow> u32 \<Rightarrow> int \<Rightarrow> driver
     \<Rightarrow> (int \<times> driver) option" where
  "ee_write_loop p mem wordsize addr off count try_count s =
     (if count > 0 then
        (let val = ee_write_value (ee_mode s) mem off
         in case ee_program_word p addr val s of
              None \<Rightarrow> None
            | Some (rc, s1) \<Rightarrow>
                if rc \<noteq> 0 then
                  (if try_count < 2 then
                     ee_write_loop p mem wordsize addr off count (try_count + 1) s1
                   else Some (3, s1))
                else
                  (let (rvalue, s2) = ee_read_word p addr s1;
                       xvalue = (val XOR rvalue) AND ee_cmd_mask s2
                   in if xvalue \<noteq> 0 then
                        (if try_count < 2 \<and> xvalue AND NOT rvalue = 0 then
                           ee_write_loop p mem wordsize addr off count (try_count + 1) s2
                         else Some (4, s2))
                      else ee_write_loop p mem wordsize (addr + 1) (off + wordsize)
                             (count - 1) 0 s2))
      else Some (0, ee_read_mode p s))"
  by pat_completeness auto
termination
  by (relation "measures [\<lambda>(p, mem, wordsize, addr, off, count, try_count, s). unat count,
                          \<lambda>(p, mem, wordsize, addr, off, count, try_count, s). nat (2 - try_count)]")
     (auto simp: measure_unat)

declare ee_write_loop.simps [simp del]

definition ee_write :: "platform \<Rightarrow> u32 \<Rightarrow> (nat \<Rightarrow> u8) \<Rightarrow> u32 \<Rightarrow> driver \<Rightarrow> (int \<times> driver) option" where
  "ee_write p addr mem count s =
     (let wordsize = (if ee_mode s = EE_MODE_32 then 4 else 2)
      in if addr + count > EE_DEVICE_SIZE then Some (1, s)
         else ee_write_loop p mem wordsize addr 0 count 0 s)"

subsection \<open>Chip geometry\<close>

record chip_blocks_t =
  cb_chipid :: u32
  cb_bbnum :: u8
  cb_bsize :: u8
  cb_ssize :: u8
  cb_map :: u8

definition chip_blocks :: "chip_blocks_t list" where
  "chip_blocks =
     [\<lparr>cb_chipid = 0x000122D2, cb_bbnum = 31, cb_bsize = 32, cb_ssize = 4, cb_map = 0x71\<rparr>,
      \<lparr>cb_chipid = 0x000122D8, cb_bbnum = 0, cb_bsize = 32, cb_ssize = 4, cb_map = 0x1d\<rparr>,
      \<lparr>cb_chipid = 0x000122D6, cb_bbnum = 15, cb_bsize = 32, cb_ssize = 4, cb_map = 0x71\<rparr>,
      \<lparr>cb_chipid = 0x00012258, cb_bbnum = 0, cb_bsize = 32, cb_ssize = 4, cb_map = 0x1d\<rparr>,
      \<lparr>cb_chipid = 0x00c222D6, cb_bbnum = 15, cb_bsize = 32, cb_ssize = 4, cb_map = 0x71\<rparr>,
      \<lparr>cb_chipid = 0x00c22258, cb_bbnum = 0, cb_bsize = 32, cb_ssize = 4, cb_map = 0x1d\<rparr>,
      \<lparr>cb_chipid = 0x00000000, cb_bbnum = 0, cb_bsize = 32, cb_ssize = 4, cb_map = 0x1d\<rparr>]"

text \<open>The \<open>for\<close> loop of \<open>get_chip_block_info\<close>: the position it stops at.\<close>

function chip_block_pos :: "u32 \<Rightarrow> nat \<Rightarrow> nat" where
  "chip_block_pos chipid pos =
     (if pos < length chip_blocks - 1 then
        (if cb_chipid (chip_blocks ! pos) = chipid then pos
         else chip_block_pos chipid (pos + 1))
      else pos)"
  by pat_completeness auto
termination
  by (relation "measure (\<lambda>(chipid, pos). length chip_blocks - 1 - pos)") auto

definition get_chip_block_info :: "u32 \<Rightarrow> chip_blocks_t" where
  "get_chip_block_info chipid = chip_blocks ! chip_block_pos chipid 0"

subsection \<open>Chip identification\<close>

text \<open>
  \<open>ee_id\<close> writes through its two pointers only in the three valid bus-width modes;
  \<open>part1\<close> and \<open>part2\<close> are what the two variables held before the call.
\<close>

definition ee_id :: "platform \<Rightarrow> u32 \<Rightarrow> u32 \<Rightarrow> driver \<Rightarrow> u32 \<times> u32 \<times> driver" where
  "ee_id p part1 part2 s =
     (let s1 = ee_cmd p 0x00555 0x00900090 s;
          (low, s2) = ee_read_word p 0x00000 s1;
          (high, s3) = ee_read_word p 0x00001 s2;
          s4 = ee_read_mode p s3
      in if ee_mode s4 = EE_MODE_32 \<or> ee_mode s4 = EE_MODE_16_LOW then
           (push_bit 16 low OR ucast (ucast high :: u16),
            (low AND 0xffff0000) OR drop_bit 16 high, s4)
         else if ee_mode s4 = EE_MODE_16_HIGH then
           ((low AND 0xffff0000) OR drop_bit 16 high,
            push_bit 16 low OR ucast (ucast high :: u16), s4)
         else (part1, part2, s4))"

subsection \<open>Erasing\<close>

text \<open>
  The \<open>do ... while (snum < 8)\<close> walk over the boot block's erase map. \<open>snum\<close> never
  exceeds the number of boot sectors of a block by more than one, so it is a natural
  number here.
\<close>

function boot_sector_walk :: "chip_blocks_t \<Rightarrow> u32 \<Rightarrow> nat \<Rightarrow> u32" where
  "boot_sector_walk cb bsize snum =
     (let bsize1 = bsize + push_bit 10 (ucast (cb_ssize cb));
          snum1 = snum + 1
      in if ucast (cb_map cb) AND BIT snum1 \<noteq> 0 then bsize1
         else if snum1 < 8 then boot_sector_walk cb bsize1 snum1
         else bsize1)"
  by pat_completeness auto
termination
  by (relation "measure (\<lambda>(cb, bsize, snum). 8 - snum)") auto

declare boot_sector_walk.simps [simp del]

text \<open>
  The size of the erase unit at \<open>addr\<close>, as the body of the sector loop computes it.
  The two divisions have no value when the divisor is 0: then the result is \<open>None\<close>.
\<close>

definition erase_unit_size :: "chip_blocks_t \<Rightarrow> u32 \<Rightarrow> u32 option" where
  "erase_unit_size cb addr =
     (let bsize = push_bit 10 (ucast (cb_bsize cb)) :: u32
      in if bsize = 0 then None
         else
           (let bnum = addr div bsize
            in if bnum = ucast (cb_bbnum cb) then
                 (let soff = addr - bnum * bsize;
                      ssize = push_bit 10 (ucast (cb_ssize cb)) :: u32
                  in if ssize = 0 then None
                     else Some (boot_sector_walk cb 0 (unat (soff div ssize))))
               else Some bsize))"

text \<open>
  The inner \<open>while (len > 0)\<close> loop of a sector erase. It returns the units it has
  queued, each as the pair of the current address and the unit size (what the
  \<open>ERASE_DEBUG\<close> build prints), the timeout, and the final \<open>addr\<close> and \<open>len\<close>.
  A unit of size 0 would keep the C loop turning for ever with \<open>len\<close> unchanged:
  the value is then \<open>None\<close>, as it is when a division has no value.
\<close>

function ee_erase_sectors ::
  "chip_blocks_t \<Rightarrow> u32 \<Rightarrow> u32 \<Rightarrow> int \<Rightarrow> driver
     \<Rightarrow> ((u32 \<times> u32) list \<times> int \<times> u32 \<times> u32 \<times> driver) option" where
  "ee_erase_sectors cb addr len timeout s =
     (if len > 0 then
        (case erase_unit_size cb addr of
           None \<Rightarrow> None
         | Some bsize \<Rightarrow>
             if bsize = 0 then None
             else
               (let addr_mask = NOT (bsize - 1);
                    s1 = ee_write_word (addr AND addr_mask) 0x00300030 s;
                    timeout1 = timeout + 1000000
                in if len < bsize then Some ([(addr, bsize)], timeout1, addr, 0, s1)
                   else
                     (case ee_erase_sectors cb (addr + bsize) (len - bsize) timeout1 s1 of
                        None \<Rightarrow> None
                      | Some (units, r) \<Rightarrow> Some ((addr, bsize) # units, r))))
      else Some ([], timeout, addr, len, s))"
  by pat_completeness auto
termination
proof (relation "measure (\<lambda>(cb, addr, len, timeout, s). unat len)")
  show "wf (measure (\<lambda>(cb, addr, len, timeout, s). unat len))"
    by simp
next
  fix cb :: chip_blocks_t and addr len bsize :: u32 and timeout :: int and s :: driver
    and addr_mask s1 timeout1
  assume "bsize \<noteq> 0" and "\<not> len < bsize"
  then have "unat bsize \<le> unat len" and "0 < unat bsize"
    by (simp_all add: word_less_nat_alt unat_gt_0)
  then have "unat (len - bsize) < unat len"
    by (simp add: unat_sub_if')
  then show "((cb, addr + bsize, len - bsize, timeout1, s1), (cb, addr, len, timeout, s))
      \<in> measure (\<lambda>(cb, addr, len, timeout, s). unat len)"
    by simp
qed

declare ee_erase_sectors.simps [simp del]

text \<open>The five unlock cycles that open every erase, as \<open>ee_erase\<close> writes them.\<close>

definition ee_erase_unlock :: "driver \<Rightarrow> driver" where
  "ee_erase_unlock s =
     ee_write_word 0x002aa 0x00559055
       (ee_write_word 0x00555 0x00aa00aa
         (ee_write_word 0x00555 0x00800080
           (ee_write_word 0x002aa 0x00550055
             (ee_write_word 0x00555 0x00aa00aa s))))"

text \<open>
  The outer \<open>while (len > 0)\<close> loop of \<open>ee_erase\<close>; \<open>timeout\<close> is a C \<open>int\<close> that
  the call of the monitor converts to 32 bits.
\<close>

partial_function (option) ee_erase_loop ::
  "platform \<Rightarrow> u32 \<Rightarrow> chip_blocks_t \<Rightarrow> int \<Rightarrow> u32 \<Rightarrow> u32 \<Rightarrow> int \<Rightarrow> driver
     \<Rightarrow> (int \<times> driver) option" where
  "ee_erase_loop p mode cb verbose addr len rc s =
     (if len > 0 then
        (if addr \<ge> EE_DEVICE_SIZE then Some (1, s)
         else
           (let s1 = ee_erase_unlock s
            in case (if mode = MX_ERASE_MODE_CHIP then
                       Some ([], 32000000, addr, 0, ee_write_word 0x00555 0x00100010 s1)
                     else ee_erase_sectors cb addr len 1000000 s1) of
                 None \<Rightarrow> None
               | Some (units, timeout, addr1, len1, s2) \<Rightarrow>
                   (case ee_wait_for_done_status p (word_of_int timeout) verbose EE_MODE_ERASE s2 of
                      None \<Rightarrow> None
                    | Some (rc1, s3) \<Rightarrow>
                        if rc1 \<noteq> 0 then Some (rc1, s3)
                        else ee_erase_loop p mode cb verbose addr1 len1 rc1 s3)))
      else Some (rc, s))"

declare ee_erase_loop.simps [code]

definition ee_erase :: "platform \<Rightarrow> u32 \<Rightarrow> u32 \<Rightarrow> u32 \<Rightarrow> int \<Rightarrow> driver \<Rightarrow> (int \<times> driver) option" where
  "ee_erase p mode addr len verbose s =
     (if mode > MX_ERASE_MODE_SECTOR then Some (1, s)
      else
        (let len1 = (if len = 0 \<or> mode = MX_ERASE_MODE_CHIP then 1 else len);
             (part1, part2, s1) = ee_id p (stack_junk p) (stack_junk p) s;
             cb = get_chip_block_info part1;
             s2 = ee_status_clear p s1
         in case ee_erase_loop p mode cb verbose addr len1 0 s2 of
              None \<Rightarrow> None
            | Some (rc, s3) \<Rightarrow> Some (rc, ee_read_mode p s3)))"

subsection \<open>Vocabulary for the completion monitor\<close>

text \<open>
  A call of \<open>ee_wait_for_done_status\<close> in state \<open>s\<close> polls the device once per turn
  of its loop. For the \<open>k\<close>-th poll (\<open>k = 1, 2, ...\<close>), \<open>wait_status p s k\<close> is the
  masked status it reads and \<open>wait_usecs p s k\<close> the elapsed time it computes; index 0
  stands for the initial values of the loop variables. \<open>wait_settled p s k\<close> says that
  poll \<open>k\<close> is the second in a row to match its predecessor, \<open>wait_fails p s k\<close>
  counts the polls up to \<open>k\<close> that show a failure bit, \<open>wait_state s k\<close> is the
  driver state after \<open>k\<close> polls, and \<open>wait_iter p t s k\<close> is the loop entered with
  the values its variables have after \<open>k\<close> polls.
\<close>

definition wait_status :: "platform \<Rightarrow> driver \<Rightarrow> nat \<Rightarrow> u32" where
  "wait_status p s k = (if k = 0 then 0 else data_pins p (nreads s + k - 1) AND ee_cmd_mask s)"

definition wait_usecs :: "platform \<Rightarrow> driver \<Rightarrow> nat \<Rightarrow> u64" where
  "wait_usecs p s k =
     (if k = 0 then 0
      else timer_tick_to_usec p (tick_source p (nticks s + k) - tick_source p (nticks s)))"

definition wait_settled :: "platform \<Rightarrow> driver \<Rightarrow> nat \<Rightarrow> bool" where
  "wait_settled p s k =
     (2 \<le> k \<and> wait_status p s k = wait_status p s (k - 1) \<and>
      wait_status p s (k - 1) = wait_status p s (k - 2))"

definition wait_fails :: "platform \<Rightarrow> driver \<Rightarrow> nat \<Rightarrow> nat" where
  "wait_fails p s k =
     length (filter (\<lambda>j. wait_status p s j AND MX_STATUS_FAIL_BITS \<noteq> 0) [1..<Suc k])"

definition wait_state :: "driver \<Rightarrow> nat \<Rightarrow> driver" where
  "wait_state s k =
     s\<lparr>bus := bus s @ replicate k (BusRead 0), nreads := nreads s + k,
       nticks := nticks s + 1 + k\<rparr>"

definition wait_iter ::
  "platform \<Rightarrow> u32 \<Rightarrow> driver \<Rightarrow> nat \<Rightarrow> (bool \<times> u32 \<times> driver) option" where
  "wait_iter p t s k =
     ee_wait_loop p t (tick_source p (nticks s)) (wait_usecs p s k) (wait_status p s k)
       (wait_status p s k)
       (if 1 \<le> k \<and> wait_status p s k = wait_status p s (k - 1) then 1 else 0)
       (int (wait_fails p s k)) (wait_state s k)"

subsection \<open>Vocabulary for erasing and programming\<close>

text \<open>
  The erase unit as the specification words it: in the boot block, the sub-sector that
  holds the address together with the sub-sectors after it up to, and not including,
  the next one whose bit is set in the erase map, or up to the end of the block
  (\<open>boot_unit_sectors\<close> counts them); elsewhere the common block. Sizes are in words,
  the table gives them in Kwords.
\<close>

definition boot_unit_sectors :: "u8 \<Rightarrow> nat \<Rightarrow> nat" where
  "boot_unit_sectors smap snum = Suc (length (takeWhile (\<lambda>j. \<not> bit smap j) [Suc snum..<8]))"

definition spec_unit_size :: "chip_blocks_t \<Rightarrow> u32 \<Rightarrow> u32" where
  "spec_unit_size cb addr =
     (let bwords = 1024 * ucast (cb_bsize cb);
          swords = 1024 * ucast (cb_ssize cb)
      in if addr div bwords = ucast (cb_bbnum cb) then
           of_nat (boot_unit_sectors (cb_map cb) (unat (addr mod bwords div swords))) * swords
         else bwords)"

text \<open>
  The address rounded down to a multiple of the boot sector size inside the boot block,
  and to a multiple of the common block size elsewhere.
\<close>

definition erase_cmd_base :: "chip_blocks_t \<Rightarrow> u32 \<Rightarrow> u32" where
  "erase_cmd_base cb addr =
     (let bwords = 1024 * ucast (cb_bsize cb);
          swords = 1024 * ucast (cb_ssize cb)
      in if addr div bwords = ucast (cb_bbnum cb) then addr - addr mod swords
         else addr - addr mod bwords)"

text \<open>
  The first word of the erase unit of the device that holds an address. A set bit of
  the erase map marks the boot sub-sector at which a unit of the boot block begins
  (map 0x1d: units of 8K, 4K, 4K and 16K words; map 0x71: 16K, 4K, 4K and 8K), and
  sub-sector 0 begins one; outside the boot block the unit is the common block. The
  device erases the whole unit that holds the address of a sector-erase command.
  \<open>sector_erase_commands\<close> lists the addresses of the sector-erase command cycles
  on the bus, in the order they were written.
\<close>

definition unit_start :: "chip_blocks_t \<Rightarrow> u32 \<Rightarrow> u32" where
  "unit_start cb addr =
     (let bwords = 1024 * ucast (cb_bsize cb);
          swords = 1024 * ucast (cb_ssize cb)
      in if addr div bwords = ucast (cb_bbnum cb) then
           addr - addr mod bwords +
             of_nat (last (0 # filter (bit (cb_map cb))
                                 [1..<Suc (unat (addr mod bwords div swords))])) * swords
         else addr - addr mod bwords)"

fun erase_command_addr :: "u32 \<Rightarrow> bus_op \<Rightarrow> u32 list" where
  "erase_command_addr m (BusWrite a d) = (if d = 0x00300030 AND m then [a] else [])"
| "erase_command_addr m (BusRead a) = []"

definition sector_erase_commands :: "driver \<Rightarrow> u32 list" where
  "sector_erase_commands s = concat (map (erase_command_addr (ee_cmd_mask s)) (bus s))"

text \<open>
  The four write cycles of \<open>ee_program_word\<close>, and the driver state after one
  program attempt whose completion poll settled at its second poll and whose verify
  read has been made.
\<close>

definition ee_program_cycles :: "u32 \<Rightarrow> u32 \<Rightarrow> driver \<Rightarrow> driver" where
  "ee_program_cycles addr word s =
     ee_write_word addr word
       (ee_write_word 0x00555 0x00a000a0
         (ee_write_word 0x002aa 0x00550055
           (ee_write_word 0x00555 0x00aa00aa s)))"

definition verified :: "platform \<Rightarrow> u32 \<Rightarrow> u32 \<Rightarrow> driver \<Rightarrow> driver" where
  "verified p addr word s =
     snd (ee_read_word p addr
            ((wait_state (ee_program_cycles addr word s) 2)\<lparr>ee_status := EE_STATUS_NORMAL\<rparr>))"

subsection \<open>Simulated platforms\<close>

text \<open>
  A platform whose data pins always read 0 and whose tick counter advances by one
  microsecond at every reading.
\<close>

definition quiet_platform :: platform where
  "quiet_platform = \<lparr>data_pins = (\<lambda>k. 0), tick_source = (\<lambda>k. word_of_nat k),
     timer_tick_to_usec = (\<lambda>t. t), timer_nsec_to_tick = (\<lambda>n. n), stack_junk = 0\<rparr>"

text \<open>
  Two platforms with a status that changes: on the first the data pins read 0x40, 0x40
  and then 0, 0x40, 0, 0x40 and so on without end; on the second they read 0x40, 0 and
  then 0x80 for ever. \<open>enabled_driver\<close> is an enabled driver in 16-bit low mode.
\<close>

definition toggling_platform :: platform where
  "toggling_platform = \<lparr>data_pins = (\<lambda>k. if k < 2 then 0x40 else if even k then 0 else 0x40),
     tick_source = (\<lambda>k. word_of_nat k),
     timer_tick_to_usec = (\<lambda>t. t), timer_nsec_to_tick = (\<lambda>n. n), stack_junk = 0\<rparr>"

definition enabled_driver :: driver where
  "enabled_driver = driver_init\<lparr>ee_cmd_mask := 0x0000ffff, ee_enabled := True\<rparr>"

definition settling_platform :: platform where
  "settling_platform = \<lparr>data_pins = (\<lambda>k. if k = 0 then 0x40 else if k = 1 then 0 else 0x80),
     tick_source = (\<lambda>k. word_of_nat k),
     timer_tick_to_usec = (\<lambda>t. t), timer_nsec_to_tick = (\<lambda>n. n), stack_junk = 0\<rparr>"

text \<open>
  A platform on which the first verify read (the third sample of the data pins) still
  shows the erased word 0xFFFF and the second one (the sixth sample) shows 0x1234,
  every status poll reading 0, and a buffer that holds the word 0x1234.
\<close>

definition slow_cell_platform :: platform where
  "slow_cell_platform = \<lparr>data_pins = (\<lambda>k. if k = 2 then 0xFFFF else if k = 5 then 0x1234 else 0),
     tick_source = (\<lambda>k. word_of_nat k),
     timer_tick_to_usec = (\<lambda>t. t), timer_nsec_to_tick = (\<lambda>n. n), stack_junk = 0\<rparr>"

definition cell_data :: "nat \<Rightarrow> u8" where
  "cell_data k = (if k = 0 then 0x34 else if k = 1 then 0x12 else 0)"

text \<open>
  The enabled driver on the quiet platform after \<open>ee_id\<close>, and after the status
  clear and the five unlock cycles of an erase.
\<close>

definition id_done :: driver where
  "id_done = enabled_driver\<lparr>ee_last_access := 1,
        bus := [BusWrite 0x555 0xaa, BusWrite 0x2aa 0x55, BusWrite 0x555 0x90,
                BusRead 0, BusRead 1, BusWrite 0x555 0xf0],
        nreads := 2, nticks := 2\<rparr>"

definition erase_ready :: driver where
  "erase_ready = enabled_driver\<lparr>ee_last_access := 3,
        bus := [BusWrite 0x555 0xaa, BusWrite 0x2aa 0x55, BusWrite 0x555 0x90,
                BusRead 0, BusRead 1, BusWrite 0x555 0xf0,
                BusWrite 0 0xf0, BusWrite 0x555 0xf0,
                BusWrite 0x555 0xaa, BusWrite 0x2aa 0x55, BusWrite 0x555 0x80,
                BusWrite 0x555 0xaa, BusWrite 0x2aa 0x9055],
        nreads := 2, nticks := 4\<rparr>"

section \<open>Properties\<close>

subsection \<open>Commands that return the device to read mode\<close>

lemma ee_cmd_reset:
  "ee_cmd p addr 0x00f000f0 s =
     s\<lparr>ee_last_access := tick_source p (nticks s),
       bus := bus s @ [BusWrite addr (0x00f000f0 AND ee_cmd_mask s)],
       nticks := nticks s + 1\<rparr>"
  by (simp add: ee_cmd_def timer_tick_get_def ee_write_word_def Let_def)

lemma ee_read_mode_eq:
  "ee_read_mode p s =
     s\<lparr>ee_last_access := tick_source p (nticks s),
       bus := bus s @ [BusWrite 0x555 (0x00f000f0 AND ee_cmd_mask s)],
       nticks := nticks s + 1\<rparr>"
  by (simp add: ee_read_mode_def ee_cmd_reset)

lemma ee_status_clear_eq:
  "ee_status_clear p s =
     s\<lparr>ee_last_access := tick_source p (nticks s + 1),
       bus := bus s @ [BusWrite 0 (0x00f000f0 AND ee_cmd_mask s),
                       BusWrite 0x555 (0x00f000f0 AND ee_cmd_mask s)],
       nticks := nticks s + 2\<rparr>"
  by (simp add: ee_status_clear_def ee_read_mode_eq ee_cmd_reset)

subsection \<open>Geometry lookup\<close>

lemma chip_block_pos_eq:
  "chip_block_pos c 0 =
    (if c = 0x000122D2 then 0 else if c = 0x000122D8 then 1 else if c = 0x000122D6 then 2
     else if c = 0x00012258 then 3 else if c = 0x00c222D6 then 4
     else if c = 0x00c22258 then 5 else 6)"
  by (simp add: chip_blocks_def eval_nat_numeral)

lemma get_chip_block_info_known:
  "get_chip_block_info 0x000122D2 =
     \<lparr>cb_chipid = 0x000122D2, cb_bbnum = 31, cb_bsize = 32, cb_ssize = 4, cb_map = 0x71\<rparr>"
  "get_chip_block_info 0x000122D8 =
     \<lparr>cb_chipid = 0x000122D8, cb_bbnum = 0, cb_bsize = 32, cb_ssize = 4, cb_map = 0x1d\<rparr>"
  "get_chip_block_info 0x000122D6 =
     \<lparr>cb_chipid = 0x000122D6, cb_bbnum = 15, cb_bsize = 32, cb_ssize = 4, cb_map = 0x71\<rparr>"
  "get_chip_block_info 0x00012258 =
     \<lparr>cb_chipid = 0x00012258, cb_bbnum = 0, cb_bsize = 32, cb_ssize = 4, cb_map = 0x1d\<rparr>"
  "get_chip_block_info 0x00c222D6 =
     \<lparr>cb_chipid = 0x00c222D6, cb_bbnum = 15, cb_bsize = 32, cb_ssize = 4, cb_map = 0x71\<rparr>"
  "get_chip_block_info 0x00c22258 =
     \<lparr>cb_chipid = 0x00c22258, cb_bbnum = 0, cb_bsize = 32, cb_ssize = 4, cb_map = 0x1d\<rparr>"
  by (simp_all add: get_chip_block_info_def chip_block_pos_eq chip_blocks_def)

lemma get_chip_block_info_unknown:
  assumes "c \<noteq> 0x000122D2" "c \<noteq> 0x000122D8" "c \<noteq> 0x000122D6"
    "c \<noteq> 0x00012258" "c \<noteq> 0x00c222D6" "c \<noteq> 0x00c22258"
  shows "get_chip_block_info c =
     \<lparr>cb_chipid = 0, cb_bbnum = 0, cb_bsize = 32, cb_ssize = 4, cb_map = 0x1d\<rparr>"
  using assms by (simp add: get_chip_block_info_def chip_block_pos_eq chip_blocks_def)

lemma chip_ids: "cb_chipid ` set chip_blocks =
    {0x000122D2, 0x000122D8, 0x000122D6, 0x00012258, 0x00c222D6, 0x00c22258, 0}"
  by (simp add: chip_blocks_def)

lemma get_chip_block_info_in_table: "get_chip_block_info c \<in> set chip_blocks"
proof -
  consider "c = 0x000122D2" | "c = 0x000122D8" | "c = 0x000122D6" | "c = 0x00012258"
    | "c = 0x00c222D6" | "c = 0x00c22258"
    | "c \<noteq> 0x000122D2" "c \<noteq> 0x000122D8" "c \<noteq> 0x000122D6"
      "c \<noteq> 0x00012258" "c \<noteq> 0x00c222D6" "c \<noteq> 0x00c22258"
    by blast
  then show ?thesis
  proof cases
    case 7
    then show ?thesis
      by (simp add: get_chip_block_info_unknown) (simp add: chip_blocks_def)
  qed (simp_all add: get_chip_block_info_known, simp_all add: chip_blocks_def)
qed

lemma get_chip_block_info_entry:
  "\<forall>e \<in> set chip_blocks. get_chip_block_info (cb_chipid e) = e"
  unfolding chip_blocks_def
  by (simp add: get_chip_block_info_known get_chip_block_info_unknown)

text \<open>
  C8. The geometry lookup is total: for every 32-bit chip id it returns an entry of the
  table; for the id of a table entry it returns that entry; for an id that is not in the
  table it returns the default bottom-boot entry (boot block 0, 32K-word common blocks,
  4K-word boot sectors, map 0x1d); and for the MX29F800CB id 0x00c22258 the boot block
  number is 0.
\<close>

theorem get_chip_block_info_total:
  "get_chip_block_info c \<in> set chip_blocks \<and>
   (\<forall>e \<in> set chip_blocks. get_chip_block_info (cb_chipid e) = e) \<and>
   (c \<notin> cb_chipid ` set chip_blocks \<longrightarrow>
      get_chip_block_info c =
        \<lparr>cb_chipid = 0, cb_bbnum = 0, cb_bsize = 32, cb_ssize = 4, cb_map = 0x1d\<rparr>) \<and>
   cb_bbnum (get_chip_block_info 0x00c22258) = 0"
proof (intro conjI impI)
  show "get_chip_block_info c \<in> set chip_blocks"
    by (rule get_chip_block_info_in_table)
  show "\<forall>e \<in> set chip_blocks. get_chip_block_info (cb_chipid e) = e"
    by (rule get_chip_block_info_entry)
  show "cb_bbnum (get_chip_block_info 0x00c22258) = 0"
    by (simp add: get_chip_block_info_known)
next
  assume "c \<notin> cb_chipid ` set chip_blocks"
  then have "c \<noteq> 0x000122D2" "c \<noteq> 0x000122D8" "c \<noteq> 0x000122D6"
      "c \<noteq> 0x00012258" "c \<noteq> 0x00c222D6" "c \<noteq> 0x00c22258"
    unfolding chip_ids by simp_all
  then show "get_chip_block_info c =
      \<lparr>cb_chipid = 0, cb_bbnum = 0, cb_bsize = 32, cb_ssize = 4, cb_map = 0x1d\<rparr>"
    by (rule get_chip_block_info_unknown)
qed

theorem get_chip_block_info_total_witness:
  "get_chip_block_info 0x12345678 \<in> set chip_blocks \<and>
   get_chip_block_info (cb_chipid (chip_blocks ! 4)) = chip_blocks ! 4 \<and>
   (0x12345678 :: u32) \<notin> cb_chipid ` set chip_blocks \<and>
   get_chip_block_info 0x12345678 =
     \<lparr>cb_chipid = 0, cb_bbnum = 0, cb_bsize = 32, cb_ssize = 4, cb_map = 0x1d\<rparr>"
proof -
  have n: "(0x12345678 :: u32) \<notin> cb_chipid ` set chip_blocks"
    unfolding chip_ids by simp
  have m: "chip_blocks ! 4 \<in> set chip_blocks"
    by (simp add: chip_blocks_def)
  from get_chip_block_info_total [of "0x12345678"] n m show ?thesis
    by blast
qed

subsection \<open>Enabling the driver\<close>

text \<open>
  C9. \<open>ee_enable\<close> on an enabled driver returns at once and changes nothing, so a
  second call has no effect; the command mask and the three tick constants are set only
  when the driver goes from disabled to enabled, the mask from the bus-width mode of
  that moment. A bus-width mode changed while the driver stays enabled leaves the mask
  as it was, also through a further call of \<open>ee_enable\<close>, and a write cycle after
  it still applies the old mask.
\<close>

theorem ee_enable_idempotent:
  "(ee_enabled s \<longrightarrow>
      ee_enable p s = s \<and>
      ee_enable p (s\<lparr>ee_mode := m\<rparr>) = s\<lparr>ee_mode := m\<rparr> \<and>
      ee_cmd_mask (ee_enable p (s\<lparr>ee_mode := m\<rparr>)) = ee_cmd_mask s \<and>
      bus (ee_write_word a d (ee_enable p (s\<lparr>ee_mode := m\<rparr>))) =
        bus s @ [BusWrite a (d AND ee_cmd_mask s)]) \<and>
   ee_enable p (ee_enable p s) = ee_enable p s \<and>
   (\<not> ee_enabled s \<longrightarrow>
      ee_enabled (ee_enable p s) \<and>
      ee_cmd_mask (ee_enable p s) =
        (if ee_mode s = EE_MODE_32 then 0xffffffff
         else if ee_mode s = EE_MODE_16_LOW then 0x0000ffff else 0xffff0000) \<and>
      ticks_per_15_nsec (ee_enable p s) = timer_nsec_to_tick p 15 \<and>
      ticks_per_20_nsec (ee_enable p s) = timer_nsec_to_tick p 20 \<and>
      ticks_per_30_nsec (ee_enable p s) = timer_nsec_to_tick p 30)"
  by (simp add: ee_enable_def ee_read_mode_eq ee_write_word_def Let_def
      EE_MODE_32_def EE_MODE_16_LOW_def)

theorem ee_enable_idempotent_witness:
  "\<not> ee_enabled driver_init \<and>
   ee_cmd_mask (ee_enable quiet_platform driver_init) = 0x0000ffff \<and>
   ee_enabled (ee_enable quiet_platform driver_init) \<and>
   ee_cmd_mask (ee_enable quiet_platform
      ((ee_enable quiet_platform driver_init)\<lparr>ee_mode := EE_MODE_32\<rparr>)) = 0x0000ffff"
  using ee_enable_idempotent [of driver_init quiet_platform]
    ee_enable_idempotent [of "ee_enable quiet_platform driver_init" quiet_platform EE_MODE_32]
  by (simp add: driver_init_def EE_MODE_32_def EE_MODE_16_LOW_def)

subsection \<open>Transfers of no words\<close>

text \<open>
  C10. For every \<open>addr\<close> up to the device size, \<open>ee_read\<close> and \<open>ee_write\<close> called
  with \<open>count = 0\<close> return 0. \<open>ee_read\<close> stores nothing and leaves the driver state,
  and so the bus, untouched; \<open>ee_write\<close> runs no program cycle and no read cycle:
  its only bus cycle is the read-mode command that ends every successful write.
\<close>

theorem ee_read_write_zero_count:
  "addr \<le> EE_DEVICE_SIZE \<Longrightarrow>
     ee_read p addr 0 s = (0, [], s) \<and>
     ee_write p addr mem 0 s = Some (0, ee_read_mode p s) \<and>
     bus (ee_read_mode p s) = bus s @ [BusWrite 0x555 (0x00f000f0 AND ee_cmd_mask s)] \<and>
     nreads (ee_read_mode p s) = nreads s"
  by (simp add: ee_read_def ee_write_def ee_read_mode_eq leD
      ee_write_loop.simps [where count = 0])

theorem ee_read_write_zero_count_witness:
  "(0x100000 :: u32) \<le> EE_DEVICE_SIZE \<and>
   ee_read quiet_platform 0x100000 0 driver_init = (0, [], driver_init) \<and>
   ee_write quiet_platform 0x100000 (\<lambda>k. 0) 0 driver_init =
     Some (0, ee_read_mode quiet_platform driver_init)"
proof -
  have h: "(0x100000 :: u32) \<le> EE_DEVICE_SIZE"
    by (simp add: EE_DEVICE_SIZE_def)
  from ee_read_write_zero_count [OF h, of quiet_platform driver_init "\<lambda>k. 0"] h
  show ?thesis by simp
qed

subsection \<open>The completion monitor\<close>

lemma wait_fails_Suc:
  "wait_fails p s (Suc k) =
     wait_fails p s k + (if wait_status p s (Suc k) AND MX_STATUS_FAIL_BITS \<noteq> 0 then 1 else 0)"
  by (simp add: wait_fails_def)

lemma wait_status_Suc: "wait_status p s (Suc k) = data_pins p (nreads s + k) AND ee_cmd_mask s"
  by (simp add: wait_status_def)

lemma wait_usecs_Suc:
  "wait_usecs p s (Suc k) =
     timer_tick_to_usec p (tick_source p (Suc (nticks s + k)) - tick_source p (nticks s))"
  by (simp add: wait_usecs_def)


lemma wait_poll:
  "ee_read_word p 0 (snd (timer_tick_get p (wait_state s k))) =
     (data_pins p (nreads s + k), wait_state s (Suc k))"
  by (simp add: ee_read_word_def timer_tick_get_def wait_state_def replicate_append_same)

lemma wait_tick: "fst (timer_tick_get p (wait_state s k)) = tick_source p (Suc (nticks s + k))"
  by (simp add: timer_tick_get_def wait_state_def)

lemma wait_state_mask [simp]: "ee_cmd_mask (wait_state s k) = ee_cmd_mask s"
  by (simp add: wait_state_def)

lemma wait_settled_Suc:
  "wait_settled p s (Suc k) \<longleftrightarrow>
     wait_status p s (Suc k) = wait_status p s k \<and> 1 \<le> k \<and> wait_status p s k = wait_status p s (k - 1)"
  by (cases k) (auto simp: wait_settled_def)

lemma wait_exit:
  "\<not> wait_usecs p s k < ucast t \<Longrightarrow>
     wait_iter p t s k = Some (False, wait_status p s k, wait_state s k)"
  unfolding wait_iter_def by (subst ee_wait_loop.simps) simp

lemma wait_done:
  assumes "wait_usecs p s k < ucast t" "wait_settled p s (Suc k)"
  shows "wait_iter p t s k =
     Some (True, wait_status p s (Suc k), (wait_state s (Suc k))\<lparr>ee_status := EE_STATUS_NORMAL\<rparr>)"
  using assms unfolding wait_iter_def wait_settled_Suc
  by (subst ee_wait_loop.simps)
     (simp add: split_beta Let_def wait_poll wait_tick wait_status_Suc)

lemma wait_step:
  assumes "wait_usecs p s k < ucast t" "\<not> wait_settled p s (Suc k)"
    "wait_status p s (Suc k) AND MX_STATUS_FAIL_BITS \<noteq> 0 \<longrightarrow> wait_fails p s k \<le> 5"
  shows "wait_iter p t s k = wait_iter p t s (Suc k)"
proof -
  have "wait_iter p t s k =
      ee_wait_loop p t (tick_source p (nticks s)) (wait_usecs p s (Suc k))
        (wait_status p s (Suc k)) (wait_status p s (Suc k))
        (if wait_status p s (Suc k) = wait_status p s k then 1 else 0)
        (int (wait_fails p s (Suc k))) (wait_state s (Suc k))"
    using assms unfolding wait_iter_def [of p t s k] wait_settled_Suc
    by (subst ee_wait_loop.simps)
       (auto simp add: split_beta Let_def wait_poll wait_tick wait_status_Suc wait_usecs_Suc
          wait_fails_Suc)
  then show ?thesis
    by (simp add: wait_iter_def)
qed

lemma wait_break:
  assumes "wait_usecs p s k < ucast t" "\<not> wait_settled p s (Suc k)"
    "wait_status p s (Suc k) AND MX_STATUS_FAIL_BITS \<noteq> 0" "5 < wait_fails p s k"
  shows "wait_iter p t s k = Some (False, wait_status p s (Suc k), wait_state s (Suc k))"
  using assms unfolding wait_iter_def [of p t s k] wait_settled_Suc
  by (subst ee_wait_loop.simps)
     (auto simp add: split_beta Let_def wait_poll wait_tick wait_status_Suc)


lemma wait_fails_mono: "j \<le> k \<Longrightarrow> wait_fails p s j \<le> wait_fails p s k"
  by (induction k) (auto simp: wait_fails_Suc le_Suc_eq)

lemma wait_chain:
  assumes "\<forall>k<n. wait_usecs p s k < ucast t"
    and "\<forall>k\<le>n. \<not> wait_settled p s k"
    and "wait_fails p s n \<le> 6"
  shows "wait_iter p t s 0 = wait_iter p t s n"
  using assms
proof (induction n)
  case 0
  show ?case by simp
next
  case (Suc n)
  have f: "wait_fails p s n \<le> wait_fails p s (Suc n)"
    by (rule wait_fails_mono) simp
  with Suc have "wait_iter p t s 0 = wait_iter p t s n"
    by simp
  also have "\<dots> = wait_iter p t s (Suc n)"
  proof (rule wait_step)
    show "wait_usecs p s n < ucast t" using Suc.prems by simp
    show "\<not> wait_settled p s (Suc n)" using Suc.prems by simp
    show "wait_status p s (Suc n) AND MX_STATUS_FAIL_BITS \<noteq> 0 \<longrightarrow> wait_fails p s n \<le> 5"
      using Suc.prems(3) by (simp add: wait_fails_Suc split: if_splits)
  qed
  finally show ?case .
qed

lemma wait_iter_0:
  "ee_wait_loop p t (tick_source p (nticks s)) 0 0 0 0 0 (snd (timer_tick_get p s)) =
     wait_iter p t s 0"
  by (simp add: wait_iter_def wait_status_def wait_usecs_def wait_fails_def wait_state_def
      timer_tick_get_def)

lemma wait_for_done_iter:
  "ee_wait_for_done_status p t verbose mode s =
     (case wait_iter p t s 0 of
        None \<Rightarrow> None
      | Some (done, status, s1) \<Rightarrow>
          if done then Some (0, s1)
          else if status AND MX_STATUS_FAIL_BITS \<noteq> 0 then
            Some (1, ee_status_clear p
                       (s1\<lparr>ee_status := (if mode = EE_MODE_ERASE then EE_STATUS_ERASE_FAILURE
                                           else EE_STATUS_PROG_FAILURE)\<rparr>))
          else
            Some (1, ee_status_clear p
                       (s1\<lparr>ee_status := (if mode = EE_MODE_ERASE then EE_STATUS_ERASE_TIMEOUT
                                           else EE_STATUS_PROG_TIMEOUT)\<rparr>)))"
  by (simp add: ee_wait_for_done_status_def wait_iter_0 [symmetric] timer_tick_get_def)

lemma wait_done_result:
  assumes "wait_settled p s n"
    and "\<forall>k<n. wait_usecs p s k < ucast t \<and> \<not> wait_settled p s k"
    and "wait_fails p s (n - 1) \<le> 6"
  shows "ee_wait_for_done_status p t verbose mode s =
     Some (0, (wait_state s n)\<lparr>ee_status := EE_STATUS_NORMAL\<rparr>)"
proof -
  from assms(1) obtain m where n: "n = Suc m"
    by (cases n) (auto simp: wait_settled_def)
  have "wait_iter p t s 0 = wait_iter p t s m"
    using assms(2,3) by (intro wait_chain) (auto simp: n)
  also have "\<dots> = Some (True, wait_status p s n, (wait_state s n)\<lparr>ee_status := EE_STATUS_NORMAL\<rparr>)"
    unfolding n using assms(1,2) by (intro wait_done) (auto simp: n)
  finally show ?thesis
    by (simp add: wait_for_done_iter)
qed

lemma wait_timeout_result:
  assumes "\<forall>k<n. wait_usecs p s k < ucast t"
    and "\<not> wait_usecs p s n < ucast t"
    and "\<forall>k\<le>n. \<not> wait_settled p s k"
    and "wait_fails p s n \<le> 6"
    and "wait_status p s n AND MX_STATUS_FAIL_BITS = 0"
  shows "ee_wait_for_done_status p t verbose mode s =
     Some (1, ee_status_clear p
                ((wait_state s n)\<lparr>ee_status := (if mode = EE_MODE_ERASE then EE_STATUS_ERASE_TIMEOUT
                                                 else EE_STATUS_PROG_TIMEOUT)\<rparr>))"
proof -
  have "wait_iter p t s 0 = wait_iter p t s n"
    using assms(1,3,4) by (rule wait_chain)
  also have "\<dots> = Some (False, wait_status p s n, wait_state s n)"
    using assms(2) by (rule wait_exit)
  finally show ?thesis
    using assms(5) by (simp add: wait_for_done_iter)
qed

lemma ee_wait_loop_result:
  assumes "ee_wait_loop p t start usecs status lstatus sc fc s = Some (done, st, s')"
  shows "nreads s \<le> nreads s' \<and> ee_cmd_mask s' = ee_cmd_mask s \<and>
     (done \<longrightarrow> ee_status s' = EE_STATUS_NORMAL) \<and>
     st = (if nreads s' = nreads s then status
           else data_pins p (nreads s' - 1) AND ee_cmd_mask s)"
  using assms
proof (induction p t start usecs status lstatus sc fc s "(done, st, s')"
    rule: ee_wait_loop.raw_induct [rotated 1, consumes 1])
  case (1 loop p t start usecs status lstatus sc fc s)
  show ?case
  proof (cases "usecs < ucast t")
    case False
    with 1(2) show ?thesis by simp
  next
    case True
    define s2 where "s2 = snd (ee_read_word p 0 (snd (timer_tick_get p s)))"
    define status1 where "status1 = data_pins p (nreads s) AND ee_cmd_mask s"
    have s2: "nreads s2 = Suc (nreads s)" "ee_cmd_mask s2 = ee_cmd_mask s"
      by (simp_all add: s2_def ee_read_word_def timer_tick_get_def)
    have rd: "ee_read_word p 0 (snd (timer_tick_get p s)) = (data_pins p (nreads s), s2)"
      by (simp add: s2_def ee_read_word_def timer_tick_get_def)
    consider (settled) "Some (True, status1, s2\<lparr>ee_status := EE_STATUS_NORMAL\<rparr>) = Some (done, st, s')"
      | (broken) "Some (False, status1, s2) = Some (done, st, s')"
      | (again) u l c f where "loop p t start u status1 l c f s2 = Some (done, st, s')"
      using 1(2) True
      by (simp add: split_beta Let_def rd s2 status1_def split: if_splits)
    then show ?thesis
    proof cases
      case settled
      with s2 show ?thesis by (auto simp: status1_def)
    next
      case broken
      with s2 show ?thesis by (auto simp: status1_def)
    next
      case again
      from 1(1) [OF again] s2 show ?thesis
        by (auto simp: status1_def)
    qed
  qed
qed

lemma tp_status:
  "wait_status toggling_platform enabled_driver k =
     (if k = 0 then 0 else if k \<le> 2 then 0x40 else if odd k then 0 else 0x40)"
  by (auto simp add: wait_status_def toggling_platform_def enabled_driver_def driver_init_def)

lemma tp_usecs: "wait_usecs toggling_platform enabled_driver k = word_of_nat k"
  by (simp add: wait_usecs_def toggling_platform_def enabled_driver_def driver_init_def)

lemma tp_not_settled: "\<not> wait_settled toggling_platform enabled_driver k"
  by (auto simp add: wait_settled_def tp_status)

lemma tp_fails: "wait_fails toggling_platform enabled_driver k = 0"
  by (simp add: wait_fails_def tp_status MX_STATUS_FAIL_BITS_def)

lemma tp_timeout:
  "ee_wait_for_done_status toggling_platform 3 0 EE_MODE_ERASE enabled_driver =
     Some (1, ee_status_clear toggling_platform
                ((wait_state enabled_driver 3)\<lparr>ee_status := EE_STATUS_ERASE_TIMEOUT\<rparr>))"
proof -
  have a: "\<forall>k<3. wait_usecs toggling_platform enabled_driver k < ucast (3 :: u32)"
    by (auto simp add: tp_usecs word_less_nat_alt unat_of_nat)
  have b: "\<not> wait_usecs toggling_platform enabled_driver 3 < ucast (3 :: u32)"
    by (simp add: tp_usecs)
  from wait_timeout_result [OF a b, of 0 EE_MODE_ERASE] show ?thesis
    by (simp add: tp_not_settled tp_fails tp_status)
qed

lemma sp_status:
  "wait_status settling_platform enabled_driver k =
     (if k = 0 then 0 else if k = 1 then 0x40 else if k = 2 then 0 else 0x80)"
  by (auto simp add: wait_status_def settling_platform_def enabled_driver_def driver_init_def)

lemma sp_usecs: "wait_usecs settling_platform enabled_driver k = word_of_nat k"
  by (simp add: wait_usecs_def settling_platform_def enabled_driver_def driver_init_def)

lemma sp_settled: "wait_settled settling_platform enabled_driver k \<longleftrightarrow> 5 \<le> k"
  by (auto simp add: wait_settled_def sp_status)

lemma sp_fails: "wait_fails settling_platform enabled_driver k = 0"
  by (simp add: wait_fails_def sp_status MX_STATUS_FAIL_BITS_def)

text \<open>
  C2, as stated, fails: two consecutive equal masked reads do not make the monitor
  report completion. On the platform below the first two polls both read 0x40; the
  monitor goes on polling and ends with a timeout.
\<close>

theorem two_equal_reads_counterexample:
  "wait_status toggling_platform enabled_driver 1 = wait_status toggling_platform enabled_driver 2 \<and>
   ee_wait_for_done_status toggling_platform 3 0 EE_MODE_ERASE enabled_driver =
     Some (1, ee_status_clear toggling_platform
                ((wait_state enabled_driver 3)\<lparr>ee_status := EE_STATUS_ERASE_TIMEOUT\<rparr>))"
  using tp_timeout by (simp add: tp_status)

text \<open>
  C2, amended. The monitor reports completion (result 0, status Normal) exactly at the
  first poll \<open>n\<close> that is the second in a row to read the same masked value as the
  poll before it, where the value before the first poll counts as 0: that is after
  three consecutive equal values, the initial 0 included. This holds when every earlier
  turn of the loop began before the timeout and fewer than seven polls before \<open>n\<close>
  showed a failure bit; exactly \<open>n\<close> polls are then made. When instead the elapsed
  time reaches the timeout at poll \<open>n\<close> with no such poll up to \<open>n\<close>, fewer than
  seven polls with a failure bit and none in the last status, the monitor returns 1
  after the status-clear command and leaves the status at Erase Timeout when called
  for an erase and at Program Timeout otherwise.
\<close>

theorem ee_wait_for_done_status_settles:
  "(wait_settled p s n \<and> (\<forall>k<n. wait_usecs p s k < ucast t \<and> \<not> wait_settled p s k) \<and>
    wait_fails p s (n - 1) \<le> 6 \<longrightarrow>
      ee_wait_for_done_status p t verbose mode s =
        Some (0, (wait_state s n)\<lparr>ee_status := EE_STATUS_NORMAL\<rparr>)) \<and>
   ((\<forall>k<n. wait_usecs p s k < ucast t) \<and> \<not> wait_usecs p s n < ucast t \<and>
    (\<forall>k\<le>n. \<not> wait_settled p s k) \<and> wait_fails p s n \<le> 6 \<and>
    wait_status p s n AND MX_STATUS_FAIL_BITS = 0 \<longrightarrow>
      ee_wait_for_done_status p t verbose mode s =
        Some (1, ee_status_clear p
                   ((wait_state s n)\<lparr>ee_status :=
                      (if mode = EE_MODE_ERASE then EE_STATUS_ERASE_TIMEOUT
                       else EE_STATUS_PROG_TIMEOUT)\<rparr>)) \<and>
      ee_status (ee_status_clear p
                   ((wait_state s n)\<lparr>ee_status :=
                      (if mode = EE_MODE_ERASE then EE_STATUS_ERASE_TIMEOUT
                       else EE_STATUS_PROG_TIMEOUT)\<rparr>)) =
        (if mode = EE_MODE_ERASE then EE_STATUS_ERASE_TIMEOUT else EE_STATUS_PROG_TIMEOUT))"
proof (intro conjI impI)
  assume "wait_settled p s n \<and> (\<forall>k<n. wait_usecs p s k < ucast t \<and> \<not> wait_settled p s k) \<and>
    wait_fails p s (n - 1) \<le> 6"
  then show "ee_wait_for_done_status p t verbose mode s =
        Some (0, (wait_state s n)\<lparr>ee_status := EE_STATUS_NORMAL\<rparr>)"
    by (intro wait_done_result) simp_all
next
  assume "(\<forall>k<n. wait_usecs p s k < ucast t) \<and> \<not> wait_usecs p s n < ucast t \<and>
    (\<forall>k\<le>n. \<not> wait_settled p s k) \<and> wait_fails p s n \<le> 6 \<and>
    wait_status p s n AND MX_STATUS_FAIL_BITS = 0"
  then show "ee_wait_for_done_status p t verbose mode s =
        Some (1, ee_status_clear p
                   ((wait_state s n)\<lparr>ee_status :=
                      (if mode = EE_MODE_ERASE then EE_STATUS_ERASE_TIMEOUT
                       else EE_STATUS_PROG_TIMEOUT)\<rparr>))"
    by (intro wait_timeout_result) simp_all
next
  show "ee_status (ee_status_clear p
                   ((wait_state s n)\<lparr>ee_status :=
                      (if mode = EE_MODE_ERASE then EE_STATUS_ERASE_TIMEOUT
                       else EE_STATUS_PROG_TIMEOUT)\<rparr>)) =
        (if mode = EE_MODE_ERASE then EE_STATUS_ERASE_TIMEOUT else EE_STATUS_PROG_TIMEOUT)"
    by (simp add: ee_status_clear_eq)
qed

theorem ee_wait_for_done_status_settles_witness:
  "wait_status settling_platform enabled_driver 3 = wait_status settling_platform enabled_driver 4 \<and>
   ee_wait_for_done_status settling_platform 360 0 EE_MODE_PROGRAM enabled_driver =
     Some (0, (wait_state enabled_driver 5)\<lparr>ee_status := EE_STATUS_NORMAL\<rparr>) \<and>
   ee_wait_for_done_status toggling_platform 3 0 EE_MODE_PROGRAM enabled_driver =
     Some (1, ee_status_clear toggling_platform
                ((wait_state enabled_driver 3)\<lparr>ee_status := EE_STATUS_PROG_TIMEOUT\<rparr>))"
proof -
  have a: "\<forall>k<5. wait_usecs settling_platform enabled_driver k < ucast (360 :: u32) \<and>
      \<not> wait_settled settling_platform enabled_driver k"
    by (auto simp add: sp_usecs sp_settled word_less_nat_alt unat_of_nat)
  have b: "\<forall>k<3. wait_usecs toggling_platform enabled_driver k < ucast (3 :: u32)"
    by (auto simp add: tp_usecs word_less_nat_alt unat_of_nat)
  have c: "\<not> wait_usecs toggling_platform enabled_driver 3 < ucast (3 :: u32)"
    by (simp add: tp_usecs)
  from ee_wait_for_done_status_settles [of settling_platform enabled_driver 5 360 0 EE_MODE_PROGRAM]
    ee_wait_for_done_status_settles [of toggling_platform enabled_driver 3 3 0 EE_MODE_PROGRAM]
    a b c
  show ?thesis
    by (simp add: sp_settled sp_fails sp_status tp_not_settled tp_fails tp_status
        EE_MODE_ERASE_def EE_MODE_PROGRAM_def)
qed

lemma wait_outcome:
  assumes "ee_wait_for_done_status p t verbose mode s = Some (rc, s')"
  shows "(rc = 0 \<and> ee_status s' = EE_STATUS_NORMAL) \<or>
     (rc = 1 \<and> (\<exists>s1. s' = ee_status_clear p s1) \<and>
      (\<exists>tr. bus s' = tr @ [BusWrite 0 (0x00f000f0 AND ee_cmd_mask s),
                           BusWrite 0x555 (0x00f000f0 AND ee_cmd_mask s)]) \<and>
      ee_status s' =
        (if (if nreads s' = nreads s then 0
             else data_pins p (nreads s' - 1) AND ee_cmd_mask s) AND MX_STATUS_FAIL_BITS \<noteq> 0
         then (if mode = EE_MODE_ERASE then EE_STATUS_ERASE_FAILURE else EE_STATUS_PROG_FAILURE)
         else (if mode = EE_MODE_ERASE then EE_STATUS_ERASE_TIMEOUT else EE_STATUS_PROG_TIMEOUT)))"
proof -
  define s0 where "s0 = snd (timer_tick_get p s)"
  have s0: "nreads s0 = nreads s" "ee_cmd_mask s0 = ee_cmd_mask s"
    by (simp_all add: s0_def timer_tick_get_def)
  from assms obtain dn st s1
    where loop: "ee_wait_loop p t (tick_source p (nticks s)) 0 0 0 0 0 s0 = Some (dn, st, s1)"
    by (auto simp: ee_wait_for_done_status_def timer_tick_get_def s0_def split: option.splits)
  from ee_wait_loop_result [OF loop] s0
  have inv: "nreads s \<le> nreads s1" "ee_cmd_mask s1 = ee_cmd_mask s"
    "dn \<longrightarrow> ee_status s1 = EE_STATUS_NORMAL"
    "st = (if nreads s1 = nreads s then 0 else data_pins p (nreads s1 - 1) AND ee_cmd_mask s)"
    by simp_all
  show ?thesis
  proof (cases dn)
    case True
    with assms loop inv(3) show ?thesis
      by (simp add: ee_wait_for_done_status_def timer_tick_get_def s0_def)
  next
    case False
    define v where "v = (if st AND MX_STATUS_FAIL_BITS \<noteq> 0
         then (if mode = EE_MODE_ERASE then EE_STATUS_ERASE_FAILURE else EE_STATUS_PROG_FAILURE)
         else (if mode = EE_MODE_ERASE then EE_STATUS_ERASE_TIMEOUT else EE_STATUS_PROG_TIMEOUT))"
    from False assms loop have r: "rc = 1" "s' = ee_status_clear p (s1\<lparr>ee_status := v\<rparr>)"
      by (auto simp add: ee_wait_for_done_status_def timer_tick_get_def s0_def v_def split: if_splits)
    have n: "nreads s' = nreads s1" and st: "ee_status s' = v"
      and b: "bus s' = bus s1 @ [BusWrite 0 (0x00f000f0 AND ee_cmd_mask s),
                           BusWrite 0x555 (0x00f000f0 AND ee_cmd_mask s)]"
      by (simp_all add: r ee_status_clear_eq inv(2))
    from r(2) have "\<exists>s1. s' = ee_status_clear p s1" by blast
    moreover from b have "\<exists>tr. bus s' = tr @ [BusWrite 0 (0x00f000f0 AND ee_cmd_mask s),
                           BusWrite 0x555 (0x00f000f0 AND ee_cmd_mask s)]" by blast
    moreover have "ee_status s' =
        (if (if nreads s' = nreads s then 0
             else data_pins p (nreads s' - 1) AND ee_cmd_mask s) AND MX_STATUS_FAIL_BITS \<noteq> 0
         then (if mode = EE_MODE_ERASE then EE_STATUS_ERASE_FAILURE else EE_STATUS_PROG_FAILURE)
         else (if mode = EE_MODE_ERASE then EE_STATUS_ERASE_TIMEOUT else EE_STATUS_PROG_TIMEOUT))"
      unfolding st v_def n inv(4) ..
    ultimately show ?thesis
      using r(1) by blast
  qed
qed

lemma wait_iter_returns:
  assumes "\<forall>j<n. wait_usecs p s j < ucast t" and "\<not> wait_usecs p s n < ucast t"
  shows "k \<le> n \<Longrightarrow> \<exists>r. wait_iter p t s k = Some r"
proof (induction "n - k" arbitrary: k)
  case 0
  then have "k = n" by simp
  with assms(2) have "wait_iter p t s k = Some (False, wait_status p s k, wait_state s k)"
    by (simp add: wait_exit)
  then show ?case
    by blast
next
  case (Suc d)
  then have k: "k < n" and ih: "\<exists>r. wait_iter p t s (Suc k) = Some r"
    by simp_all
  from k assms(1) have u: "wait_usecs p s k < ucast t"
    by simp
  show ?case
  proof (cases "wait_settled p s (Suc k)")
    case True
    with u have "wait_iter p t s k =
        Some (True, wait_status p s (Suc k), (wait_state s (Suc k))\<lparr>ee_status := EE_STATUS_NORMAL\<rparr>)"
      by (rule wait_done)
    then show ?thesis
      by blast
  next
    case False
    show ?thesis
    proof (cases "wait_status p s (Suc k) AND MX_STATUS_FAIL_BITS \<noteq> 0 \<and> 5 < wait_fails p s k")
      case True
      with u False have "wait_iter p t s k =
          Some (False, wait_status p s (Suc k), wait_state s (Suc k))"
        by (intro wait_break) simp_all
      then show ?thesis
        by blast
    next
      case nb: False
      then have "wait_status p s (Suc k) AND MX_STATUS_FAIL_BITS \<noteq> 0 \<longrightarrow> wait_fails p s k \<le> 5"
        by auto
      with u False have "wait_iter p t s k = wait_iter p t s (Suc k)"
        by (rule wait_step)
      with ih show ?thesis
        by simp
    qed
  qed
qed

lemma wait_returns:
  assumes "\<not> wait_usecs p s n < ucast t"
  shows "\<exists>r. ee_wait_for_done_status p t verbose mode s = Some r"
proof -
  define m where "m = (LEAST i. \<not> wait_usecs p s i < ucast t)"
  have m: "\<not> wait_usecs p s m < ucast t"
    unfolding m_def using assms by (rule LeastI)
  have "\<forall>j<m. wait_usecs p s j < ucast t"
    unfolding m_def using not_less_Least by blast
  from wait_iter_returns [OF this m, of 0] obtain r where "wait_iter p t s 0 = Some r"
    by auto
  then show ?thesis
    by (cases r) (simp add: wait_for_done_iter)
qed

text \<open>
  C7. A call of the monitor returns as soon as the elapsed time it computes reaches the
  timeout, if not before, and every call that returns gives 0 or 1. With 0 the status
  is Normal. With 1 the last thing done was the status-clear command, whose two reset
  writes are the last two bus cycles, and the status is the failure variant of the
  operation kind when the last status polled showed a failure bit (as it does when the
  loop is left by the failure count) and the timeout variant otherwise.
\<close>

theorem ee_wait_for_done_status_outcome:
  "((\<exists>n. \<not> wait_usecs p s n < ucast t) \<longrightarrow>
      (\<exists>rc s'. ee_wait_for_done_status p t verbose mode s = Some (rc, s'))) \<and>
   (\<forall>rc s'. ee_wait_for_done_status p t verbose mode s = Some (rc, s') \<longrightarrow>
      (rc = 0 \<and> ee_status s' = EE_STATUS_NORMAL) \<or>
      (rc = 1 \<and> (\<exists>s1. s' = ee_status_clear p s1) \<and>
       (\<exists>tr. bus s' = tr @ [BusWrite 0 (0x00f000f0 AND ee_cmd_mask s),
                            BusWrite 0x555 (0x00f000f0 AND ee_cmd_mask s)]) \<and>
       ee_status s' =
         (if (if nreads s' = nreads s then 0
              else data_pins p (nreads s' - 1) AND ee_cmd_mask s) AND MX_STATUS_FAIL_BITS \<noteq> 0
          then (if mode = EE_MODE_ERASE then EE_STATUS_ERASE_FAILURE else EE_STATUS_PROG_FAILURE)
          else (if mode = EE_MODE_ERASE then EE_STATUS_ERASE_TIMEOUT
                else EE_STATUS_PROG_TIMEOUT))))"
proof (intro conjI impI allI)
  assume "\<exists>n. \<not> wait_usecs p s n < ucast t"
  then obtain n where "\<not> wait_usecs p s n < ucast t"
    by blast
  then have "\<exists>r. ee_wait_for_done_status p t verbose mode s = Some r"
    by (rule wait_returns)
  then show "\<exists>rc s'. ee_wait_for_done_status p t verbose mode s = Some (rc, s')"
    by auto
next
  fix rc s'
  assume "ee_wait_for_done_status p t verbose mode s = Some (rc, s')"
  then show "(rc = 0 \<and> ee_status s' = EE_STATUS_NORMAL) \<or>
      (rc = 1 \<and> (\<exists>s1. s' = ee_status_clear p s1) \<and>
       (\<exists>tr. bus s' = tr @ [BusWrite 0 (0x00f000f0 AND ee_cmd_mask s),
                            BusWrite 0x555 (0x00f000f0 AND ee_cmd_mask s)]) \<and>
       ee_status s' =
         (if (if nreads s' = nreads s then 0
              else data_pins p (nreads s' - 1) AND ee_cmd_mask s) AND MX_STATUS_FAIL_BITS \<noteq> 0
          then (if mode = EE_MODE_ERASE then EE_STATUS_ERASE_FAILURE else EE_STATUS_PROG_FAILURE)
          else (if mode = EE_MODE_ERASE then EE_STATUS_ERASE_TIMEOUT
                else EE_STATUS_PROG_TIMEOUT)))"
    by (rule wait_outcome)
qed

theorem ee_wait_for_done_status_outcome_witness:
  "\<not> wait_usecs toggling_platform enabled_driver 3 < ucast (3 :: u32) \<and>
   ee_wait_for_done_status toggling_platform 3 0 EE_MODE_ERASE enabled_driver =
     Some (1, ee_status_clear toggling_platform
                ((wait_state enabled_driver 3)\<lparr>ee_status := EE_STATUS_ERASE_TIMEOUT\<rparr>)) \<and>
   ee_status (ee_status_clear toggling_platform
                ((wait_state enabled_driver 3)\<lparr>ee_status := EE_STATUS_ERASE_TIMEOUT\<rparr>)) =
     EE_STATUS_ERASE_TIMEOUT"
  using ee_wait_for_done_status_outcome [of toggling_platform enabled_driver 3 0 EE_MODE_ERASE]
    tp_timeout
  by (simp add: ee_status_clear_eq tp_usecs)

subsection \<open>Erase units\<close>

lemma map_bit_test: "(ucast (m :: u8) :: u32) AND BIT j \<noteq> 0 \<longleftrightarrow> bit m j"
  by (auto simp add: BIT_def and_exp_eq_0_iff_not_bit bit_ucast_iff
      dest: bit_imp_le_length)

lemma boot_sector_walk_spec:
  "boot_sector_walk cb bsize snum =
     bsize + of_nat (boot_unit_sectors (cb_map cb) snum) * push_bit 10 (ucast (cb_ssize cb))"
proof (induction cb bsize snum rule: boot_sector_walk.induct)
  case (1 cb bsize snum)
  show ?case
  proof (cases "bit (cb_map cb) (Suc snum)")
    case True
    then have "Suc snum < 8"
      by (auto dest: bit_imp_le_length)
    with True show ?thesis
      by (subst boot_sector_walk.simps)
         (simp add: map_bit_test boot_unit_sectors_def upt_conv_Cons Let_def)
  next
    case False
    show ?thesis
    proof (cases "Suc snum < 8")
      case True
      with False 1 show ?thesis
        by (subst boot_sector_walk.simps)
           (simp add: map_bit_test boot_unit_sectors_def upt_conv_Cons Let_def algebra_simps)
    next
      case b: False
      with False show ?thesis
        by (subst boot_sector_walk.simps)
           (simp add: map_bit_test boot_unit_sectors_def Let_def)
    qed
  qed
qed

lemma ee_erase_sectors_units:
  assumes "ee_erase_sectors cb addr len t s = Some (units, t', a', l', s')"
  shows "l' = 0 \<and> (len \<noteq> 0 \<longrightarrow> units \<noteq> []) \<and>
     (\<forall>(a, b) \<in> set units. erase_unit_size cb a = Some b \<and> b \<noteq> 0) \<and>
     unat len \<le> sum_list (map (\<lambda>(a, b). unat b) units) \<and>
     t' = t + 1000000 * int (length units) \<and>
     s' = s\<lparr>bus := bus s @ map (\<lambda>(a, b). BusWrite (a AND NOT (b - 1))
                                    (0x00300030 AND ee_cmd_mask s)) units\<rparr>"
  using assms
proof (induction cb addr len t s arbitrary: units t' a' l' s' rule: ee_erase_sectors.induct)
  case (1 cb addr len timeout s)
  show ?case
  proof (cases "len = 0")
    case True
    with "1.prems" show ?thesis
      by (simp add: ee_erase_sectors.simps [of cb addr 0])
  next
    case False
    then have pos: "0 < len" by (simp add: word_neq_0_conv)
    from "1.prems" pos obtain bsize where u: "erase_unit_size cb addr = Some bsize" "bsize \<noteq> 0"
      by (subst (asm) ee_erase_sectors.simps) (auto split: option.splits if_splits)
    define s1 where "s1 = ee_write_word (addr AND NOT (bsize - 1)) 0x00300030 s"
    have s1: "s1 = s\<lparr>bus := bus s @ [BusWrite (addr AND NOT (bsize - 1))
                                    (0x00300030 AND ee_cmd_mask s)]\<rparr>"
      by (simp add: s1_def ee_write_word_def)
    show ?thesis
    proof (cases "len < bsize")
      case True
      with "1.prems" pos u have "units = [(addr, bsize)]" "t' = timeout + 1000000" "l' = 0" "s' = s1"
        by (auto simp add: ee_erase_sectors.simps [of cb addr len] Let_def s1_def)
      with True u s1 show ?thesis
        by (simp add: word_less_nat_alt)
    next
      case ge: False
      with "1.prems" pos u obtain us
        where r: "ee_erase_sectors cb (addr + bsize) (len - bsize) (timeout + 1000000) s1 =
            Some (us, t', a', l', s')" and units: "units = (addr, bsize) # us"
        by (auto simp add: ee_erase_sectors.simps [of cb addr len] Let_def s1_def
            split: option.splits)
      have ih: "l' = 0 \<and> (len - bsize \<noteq> 0 \<longrightarrow> us \<noteq> []) \<and>
         (\<forall>(a, b) \<in> set us. erase_unit_size cb a = Some b \<and> b \<noteq> 0) \<and>
         unat (len - bsize) \<le> sum_list (map (\<lambda>(a, b). unat b) us) \<and>
         t' = timeout + 1000000 + 1000000 * int (length us) \<and>
         s' = s1\<lparr>bus := bus s1 @ map (\<lambda>(a, b). BusWrite (a AND NOT (b - 1))
                                    (0x00300030 AND ee_cmd_mask s1)) us\<rparr>"
        using "1.IH" [OF pos u(1) u(2) refl refl refl ge r [unfolded s1_def]]
        by (simp add: s1_def)
      from ge have "unat bsize \<le> unat len"
        by (simp add: word_less_nat_alt)
      then have "unat (len - bsize) = unat len - unat bsize"
        by (simp add: unat_sub_if')
      with ih have "unat len - unat bsize \<le> sum_list (map (\<lambda>(a, b). unat b) us)"
        by simp
      with \<open>unat bsize \<le> unat len\<close>
      have "unat len \<le> unat bsize + sum_list (map (\<lambda>(a, b). unat b) us)"
        by linarith
      with ih units u s1 show ?thesis
        by simp
    qed
  qed
qed

lemma and_not_or_bit: "\<not> bit (a::u32) n \<Longrightarrow> a AND NOT (m OR push_bit n 1) = a AND NOT m"
  by (rule bit_eqI) (auto simp add: bit_simps)

lemma and_not_mask_round: "(a::u32) AND NOT (mask n) = a - a mod 2 ^ n"
proof -
  have "a AND NOT (mask n) = push_bit n (drop_bit n a)"
    by (rule bit_eqI) (auto simp add: bit_simps)
  moreover have "push_bit n (drop_bit n a) + take_bit n a = a"
    by (rule bits_ident)
  ultimately show ?thesis
    by (simp add: take_bit_eq_mod algebra_simps)
qed

lemma round_4k: "(a::u32) AND - 4096 = a - a mod 4096"
  using and_not_mask_round [of a 12] by (simp add: mask_eq_exp_minus_1)

lemma round_32k: "(a::u32) AND - 32768 = a - a mod 32768"
  using and_not_mask_round [of a 15] by (simp add: mask_eq_exp_minus_1)

lemma round_8k: "\<not> bit (a::u32) 12 \<Longrightarrow> a AND - 8192 = a AND - 4096"
  using and_not_or_bit [of a 12 "0xFFF"] by simp

lemma round_12k: "\<not> bit (a::u32) 13 \<Longrightarrow> a AND - 12288 = a AND - 4096"
  using and_not_or_bit [of a 13 "0xFFF"] by simp

lemma round_16k: "\<not> bit (a::u32) 12 \<Longrightarrow> \<not> bit a 13 \<Longrightarrow> a AND - 16384 = a AND - 4096"
  using and_not_or_bit [of a 13 "0x1FFF"] round_8k [of a] by simp

lemma sub_sector_bits:
  fixes a :: u32
  defines "w \<equiv> (a - a div 0x8000 * 0x8000) div 0x1000"
  shows "unat w < 8" "bit a 12 \<longleftrightarrow> bit w 0" "bit a 13 \<longleftrightarrow> bit w 1"
proof -
  have w: "w = drop_bit 12 (take_bit 15 a)"
    by (simp add: w_def minus_div_mult_eq_mod take_bit_eq_mod drop_bit_eq_div)
  show "unat w < 8"
    by (simp add: w_def minus_div_mult_eq_mod unat_div unat_mod)
  show "bit a 12 \<longleftrightarrow> bit w 0" "bit a 13 \<longleftrightarrow> bit w 1"
    unfolding w by (simp_all add: bit_simps)
qed

lemma boot_unit_sectors_1d:
  "boot_unit_sectors 0x1d 0 = 2" "boot_unit_sectors 0x1d 1 = 1" "boot_unit_sectors 0x1d 2 = 1"
  "boot_unit_sectors 0x1d 3 = 1" "boot_unit_sectors 0x1d 4 = 4" "boot_unit_sectors 0x1d 5 = 3"
  "boot_unit_sectors 0x1d 6 = 2" "boot_unit_sectors 0x1d 7 = 1"
  "boot_unit_sectors 0x1d (Suc 0) = 1"
  by code_simp+

lemma boot_unit_sectors_71:
  "boot_unit_sectors 0x71 0 = 4" "boot_unit_sectors 0x71 1 = 3" "boot_unit_sectors 0x71 2 = 2"
  "boot_unit_sectors 0x71 3 = 1" "boot_unit_sectors 0x71 4 = 1" "boot_unit_sectors 0x71 5 = 1"
  "boot_unit_sectors 0x71 6 = 2" "boot_unit_sectors 0x71 7 = 1"
  "boot_unit_sectors 0x71 (Suc 0) = 3"
  by code_simp+

lemma table_geometry:
  "cb_bsize (get_chip_block_info c) = 32 \<and> cb_ssize (get_chip_block_info c) = 4 \<and>
   (cb_map (get_chip_block_info c) = 0x1d \<or> cb_map (get_chip_block_info c) = 0x71)"
  using get_chip_block_info_in_table [of c] by (auto simp: chip_blocks_def)

lemma erase_unit_size_spec:
  "erase_unit_size (get_chip_block_info c) a = Some (spec_unit_size (get_chip_block_info c) a)"
  using table_geometry [of c]
  unfolding erase_unit_size_def spec_unit_size_def Let_def minus_div_mult_eq_mod
  by (simp add: boot_sector_walk_spec)

lemma small_word_cases:
  fixes w :: u32
  assumes "unat w < 8"
  shows "w = 0 \<or> w = 1 \<or> w = 2 \<or> w = 3 \<or> w = 4 \<or> w = 5 \<or> w = 6 \<or> w = 7"
proof -
  from assms have "unat w = 0 \<or> unat w = 1 \<or> unat w = 2 \<or> unat w = 3 \<or> unat w = 4 \<or>
      unat w = 5 \<or> unat w = 6 \<or> unat w = 7"
    by arith
  moreover have r: "w = of_nat n" if "unat w = n" for n
    using that by (metis of_nat_unat ucast_id)
  ultimately show ?thesis
    using r [of 0] r [of 1] r [of 2] r [of 3] r [of 4] r [of 5] r [of 6] r [of 7]
    by (elim disjE) simp_all
qed

lemma boot_cmd_address:
  fixes a :: u32
  assumes "m = 0x1d \<or> m = 0x71"
  shows "of_nat (boot_unit_sectors m (unat (a mod 0x8000 div 0x1000))) * (0x1000 :: u32) \<noteq> 0 \<and>
     1 < of_nat (boot_unit_sectors m (unat (a mod 0x8000 div 0x1000))) * (0x1000 :: u32) \<and>
     a AND NOT (of_nat (boot_unit_sectors m (unat (a mod 0x8000 div 0x1000))) * 0x1000 - 1) =
       a - a mod 0x1000"
proof -
  define w where "w = (a - a div 0x8000 * 0x8000) div 0x1000"
  have w: "a mod 0x8000 div 0x1000 = w"
    by (simp add: w_def minus_div_mult_eq_mod)
  have b: "bit a 12 \<longleftrightarrow> bit w 0" "bit a 13 \<longleftrightarrow> bit w 1"
    unfolding w_def by (rule sub_sector_bits)+
  have "unat w < 8"
    unfolding w_def by (rule sub_sector_bits)
  then have "w = 0 \<or> w = 1 \<or> w = 2 \<or> w = 3 \<or> w = 4 \<or> w = 5 \<or> w = 6 \<or> w = 7"
    by (rule small_word_cases)
  with assms b show ?thesis
    unfolding w
    by (elim disjE)
       (simp_all add: boot_unit_sectors_1d boot_unit_sectors_71 round_4k [symmetric]
          round_8k round_12k round_16k)
qed

lemma unit_cmd_address:
  "spec_unit_size (get_chip_block_info c) a \<noteq> 0 \<and>
   1 < spec_unit_size (get_chip_block_info c) a \<and>
   a AND NOT (spec_unit_size (get_chip_block_info c) a - 1) =
     erase_cmd_base (get_chip_block_info c) a"
proof (cases "a div 0x8000 = ucast (cb_bbnum (get_chip_block_info c))")
  case True
  with table_geometry [of c] boot_cmd_address [of "cb_map (get_chip_block_info c)" a]
  show ?thesis
    by (simp add: spec_unit_size_def erase_cmd_base_def)
next
  case False
  with table_geometry [of c] show ?thesis
    by (simp add: spec_unit_size_def erase_cmd_base_def round_32k)
qed

lemma ee_erase_sectors_returns:
  "cb = get_chip_block_info c \<Longrightarrow> \<exists>r. ee_erase_sectors cb addr len t s = Some r"
proof (induction cb addr len t s rule: ee_erase_sectors.induct)
  case (1 cb addr len timeout s)
  define b where "b = spec_unit_size cb addr"
  have u: "erase_unit_size cb addr = Some b" "b \<noteq> 0"
    using erase_unit_size_spec [of c addr] unit_cmd_address [of c addr] "1.prems"
    by (simp_all add: b_def)
  show ?case
  proof (cases "0 < len \<and> \<not> len < b")
    case True
    with "1.IH" [OF _ u(1) u(2) refl refl refl _ "1.prems"]
    obtain r where "ee_erase_sectors cb (addr + b) (len - b) (timeout + 1000000)
        (ee_write_word (addr AND NOT (b - 1)) 0x00300030 s) = Some r"
      by auto
    with True u show ?thesis
      by (cases r) (simp add: ee_erase_sectors.simps [of cb addr len] Let_def)
  next
    case False
    with u show ?thesis
      by (auto simp add: ee_erase_sectors.simps [of cb addr len] Let_def)
  qed
qed

lemma ee_erase_sectors_none: "ee_erase_sectors cb addr 0 t s = Some ([], t, addr, 0, s)"
  by (simp add: ee_erase_sectors.simps [of cb addr 0])

lemma ee_erase_sectors_step:
  assumes "len \<noteq> 0"
  shows "ee_erase_sectors (get_chip_block_info c) addr len t s =
     (if len < spec_unit_size (get_chip_block_info c) addr then
        Some ([(addr, spec_unit_size (get_chip_block_info c) addr)], t + 1000000, addr, 0,
              ee_write_word (erase_cmd_base (get_chip_block_info c) addr) 0x00300030 s)
      else
        (case ee_erase_sectors (get_chip_block_info c)
                (addr + spec_unit_size (get_chip_block_info c) addr)
                (len - spec_unit_size (get_chip_block_info c) addr) (t + 1000000)
                (ee_write_word (erase_cmd_base (get_chip_block_info c) addr) 0x00300030 s) of
           None \<Rightarrow> None
         | Some (units, r) \<Rightarrow> Some ((addr, spec_unit_size (get_chip_block_info c) addr) # units, r)))"
proof -
  from assms have pos: "0 < len"
    by (simp add: word_neq_0_conv)
  have nz: "spec_unit_size (get_chip_block_info c) addr \<noteq> 0"
    and base: "addr AND NOT (spec_unit_size (get_chip_block_info c) addr - 1) =
      erase_cmd_base (get_chip_block_info c) addr"
    using unit_cmd_address [of c addr] by simp_all
  show ?thesis
    by (subst ee_erase_sectors.simps)
       (simp add: erase_unit_size_spec Let_def pos nz base)
qed

lemma ee_erase_sectors_one:
  "ee_erase_sectors (get_chip_block_info c) addr 1 t s =
     Some ([(addr, spec_unit_size (get_chip_block_info c) addr)], t + 1000000, addr, 0,
           ee_write_word (erase_cmd_base (get_chip_block_info c) addr) 0x00300030 s)"
  using unit_cmd_address [of c addr] by (simp add: ee_erase_sectors_step)

lemma ee_erase_loop_sector:
  assumes "addr < EE_DEVICE_SIZE" "len \<noteq> 0"
  shows "ee_erase_loop p MX_ERASE_MODE_SECTOR (get_chip_block_info c) verbose addr len rc s =
     (case ee_erase_sectors (get_chip_block_info c) addr len 1000000 (ee_erase_unlock s) of
        None \<Rightarrow> None
      | Some (units, timeout, a1, l1, s1) \<Rightarrow>
          ee_wait_for_done_status p (word_of_int timeout) verbose EE_MODE_ERASE s1)"
proof -
  obtain units timeout a1 l1 s1
    where r: "ee_erase_sectors (get_chip_block_info c) addr len 1000000 (ee_erase_unlock s) =
        Some (units, timeout, a1, l1, s1)"
    using ee_erase_sectors_returns [OF refl, of c addr len 1000000 "ee_erase_unlock s"]
    by (metis prod_cases5)
  from ee_erase_sectors_units [OF r] have l1: "l1 = 0"
    by simp
  have last: "ee_erase_loop p m cb verbose a1 0 rc1 s3 = Some (rc1, s3)" for m cb rc1 s3
    by (subst ee_erase_loop.simps) simp
  have ne: "MX_ERASE_MODE_SECTOR \<noteq> MX_ERASE_MODE_CHIP"
    by (simp add: MX_ERASE_MODE_SECTOR_def MX_ERASE_MODE_CHIP_def)
  from assms have pos: "0 < len" and inr: "\<not> EE_DEVICE_SIZE \<le> addr"
    by (simp_all add: word_neq_0_conv leD)
  show ?thesis
    by (subst ee_erase_loop.simps)
       (auto simp add: r l1 last Let_def pos inr ne split: option.splits)
qed

lemma ee_erase_sector_mode:
  assumes "addr < EE_DEVICE_SIZE"
  shows "ee_erase p MX_ERASE_MODE_SECTOR addr len verbose s =
     (let (part1, part2, s1) = ee_id p (stack_junk p) (stack_junk p) s;
          cb = get_chip_block_info part1;
          s2 = ee_erase_unlock (ee_status_clear p s1)
      in case ee_erase_sectors cb addr (if len = 0 then 1 else len) 1000000 s2 of
           None \<Rightarrow> None
         | Some (units, timeout, a1, l1, s3) \<Rightarrow>
             (case ee_wait_for_done_status p (word_of_int timeout) verbose EE_MODE_ERASE s3 of
                None \<Rightarrow> None
              | Some (rc, s4) \<Rightarrow> Some (rc, ee_read_mode p s4)))"
proof -
  have ne: "MX_ERASE_MODE_SECTOR \<noteq> MX_ERASE_MODE_CHIP"
    by (simp add: MX_ERASE_MODE_SECTOR_def MX_ERASE_MODE_CHIP_def)
  have len1: "(if len = 0 then 1 else len) \<noteq> 0"
    by simp
  show ?thesis
    unfolding ee_erase_def
    by (simp add: ee_erase_loop_sector [OF assms len1] ne split_beta Let_def
        split: option.splits)
qed

lemma word_mod_le_dividend: "(a::u32) mod k \<le> a"
  by (simp add: word_le_nat_alt unat_mod)

lemma erase_cmd_base_le: "erase_cmd_base cb a \<le> a"
  by (simp add: erase_cmd_base_def Let_def word_sub_le word_mod_le_dividend)

lemma default_geometry:
  "get_chip_block_info 0 =
     \<lparr>cb_chipid = 0, cb_bbnum = 0, cb_bsize = 32, cb_ssize = 4, cb_map = 0x1d\<rparr>"
  by (rule get_chip_block_info_unknown) simp_all

lemma default_units:
  "spec_unit_size (get_chip_block_info 0) 0xF8000 = 0x8000"
  "erase_cmd_base (get_chip_block_info 0) 0xF8000 = 0xF8000"
  "spec_unit_size (get_chip_block_info 0) 0x100000 = 0x8000"
  "erase_cmd_base (get_chip_block_info 0) 0x100000 = 0x100000"
  "spec_unit_size (get_chip_block_info 0) 0x7000 = 0x1000"
  "erase_cmd_base (get_chip_block_info 0) 0x7000 = 0x7000"
  "spec_unit_size (get_chip_block_info 0) 0x8000 = 0x8000"
  "erase_cmd_base (get_chip_block_info 0) 0x8000 = 0x8000"
  "spec_unit_size (get_chip_block_info 0) 0x1000 = 0x1000"
  "erase_cmd_base (get_chip_block_info 0) 0x1000 = 0x1000"
  by (simp_all add: spec_unit_size_def erase_cmd_base_def default_geometry boot_unit_sectors_1d)

lemma unit_79000:
  "spec_unit_size (get_chip_block_info 0x000122D6) 0x79000 = 0x3000"
  "erase_cmd_base (get_chip_block_info 0x000122D6) 0x79000 = 0x79000"
  "spec_unit_size (get_chip_block_info 0x000122D6) 0x78000 = 0x4000"
  by (simp_all add: spec_unit_size_def erase_cmd_base_def get_chip_block_info_known
      boot_unit_sectors_71)

lemma erase_79000:
  "ee_erase_sectors (get_chip_block_info 0x000122D6) 0x79000 1 1000000 enabled_driver =
     Some ([(0x79000, 0x3000)], 2000000, 0x79000, 0,
           enabled_driver\<lparr>bus := [BusWrite 0x79000 0x30]\<rparr>)"
  by (simp add: ee_erase_sectors_one unit_79000 ee_write_word_def enabled_driver_def
      driver_init_def)

lemma erase_past_end:
  "ee_erase_sectors (get_chip_block_info 0) 0xF8000 0x8001 1000000 erase_ready =
     Some ([(0xF8000, 0x8000), (0x100000, 0x8000)], 3000000, 0x100000, 0,
           ee_write_word 0x100000 0x00300030 (ee_write_word 0xF8000 0x00300030 erase_ready))"
  by (simp add: ee_erase_sectors_step default_units)

lemma erase_two_units:
  "ee_erase_sectors (get_chip_block_info 0) 0x7000 0x1001 1000000 erase_ready =
     Some ([(0x7000, 0x1000), (0x8000, 0x8000)], 3000000, 0x8000, 0,
           ee_write_word 0x8000 0x00300030 (ee_write_word 0x7000 0x00300030 erase_ready))"
  by (simp add: ee_erase_sectors_step default_units)

lemma quiet_wait:
  assumes "1 < (ucast t :: u64)"
  shows "ee_wait_for_done_status quiet_platform t v m s =
     Some (0, (wait_state s 2)\<lparr>ee_status := EE_STATUS_NORMAL\<rparr>)"
proof -
  have st: "wait_status quiet_platform s k = 0" for k
    by (simp add: wait_status_def quiet_platform_def)
  have us: "wait_usecs quiet_platform s k = word_of_nat k" for k
    by (simp add: wait_usecs_def quiet_platform_def)
  have se: "wait_settled quiet_platform s k \<longleftrightarrow> 2 \<le> k" for k
    by (simp add: wait_settled_def st)
  have fa: "wait_fails quiet_platform s k = 0" for k
    by (simp add: wait_fails_def st)
  have "\<forall>k<2. wait_usecs quiet_platform s k < ucast t \<and> \<not> wait_settled quiet_platform s k"
  proof (intro allI impI)
    fix k :: nat
    assume "k < 2"
    then have "k = 0 \<or> k = 1" by arith
    moreover from assms have "0 < (ucast t :: u64)"
      unfolding word_less_nat_alt by simp
    ultimately show "wait_usecs quiet_platform s k < ucast t \<and> \<not> wait_settled quiet_platform s k"
      using assms by (auto simp add: us se)
  qed
  then show ?thesis
    by (intro wait_done_result) (simp_all add: se fa)
qed

lemma quiet_id: "ee_id quiet_platform j1 j2 enabled_driver = (0, 0, id_done)"
  by (simp add: ee_id_def ee_cmd_def ee_read_mode_eq ee_read_word_def ee_write_word_def
      timer_tick_get_def quiet_platform_def enabled_driver_def driver_init_def Let_def
      EE_MODE_32_def EE_MODE_16_LOW_def EE_MODE_16_HIGH_def id_done_def)

lemma quiet_erase_ready:
  "ee_erase_unlock (ee_status_clear quiet_platform id_done) = erase_ready"
  by (simp add: ee_status_clear_eq ee_erase_unlock_def ee_write_word_def
      quiet_platform_def enabled_driver_def driver_init_def erase_ready_def id_done_def)

lemma quiet_erase:
  assumes "addr < EE_DEVICE_SIZE"
    and "ee_erase_sectors (get_chip_block_info 0) addr (if len = 0 then 1 else len) 1000000
           erase_ready = Some (units, timeout, a1, l1, s3)"
    and "1 < (ucast (word_of_int timeout :: u32) :: u64)"
  shows "ee_erase quiet_platform MX_ERASE_MODE_SECTOR addr len verbose enabled_driver =
     Some (0, ee_read_mode quiet_platform ((wait_state s3 2)\<lparr>ee_status := EE_STATUS_NORMAL\<rparr>))"
  unfolding ee_erase_sector_mode [OF assms(1)] quiet_id
  using assms(2,3) by (simp add: quiet_erase_ready quiet_wait)

text \<open>
  What the sector loop does achieve, for every chip id, address and length: it returns
  with no length left, having written one sector-erase command per queued unit. The
  size of each unit is the one the specification describes: in the boot block the sizes
  of the sub-sectors from the one holding the current address up to the next set bit of
  the erase map, the common block size elsewhere. A request of nonzero length queues at
  least one unit, the first for the requested address, and the sizes of the queued
  units add up to at least the requested length. Each command is written inside the
  erase unit that holds the current address.
\<close>

lemma ee_erase_sectors_sizes:
  "\<exists>units a'.
     ee_erase_sectors (get_chip_block_info c) addr len t s =
       Some (units, t + 1000000 * int (length units), a', 0,
             s\<lparr>bus := bus s @ map (\<lambda>(a, b). BusWrite (erase_cmd_base (get_chip_block_info c) a)
                                          (0x00300030 AND ee_cmd_mask s)) units\<rparr>) \<and>
     (\<forall>(a, b) \<in> set units. b = spec_unit_size (get_chip_block_info c) a) \<and>
     (len \<noteq> 0 \<longrightarrow> units \<noteq> [] \<and> fst (hd units) = addr) \<and>
     unat len \<le> sum_list (map (\<lambda>(a, b). unat b) units)"
proof -
  obtain units t' a' l' s'
    where r: "ee_erase_sectors (get_chip_block_info c) addr len t s = Some (units, t', a', l', s')"
    using ee_erase_sectors_returns [OF refl, of c addr len t s] by (metis prod_cases5)
  note p = ee_erase_sectors_units [OF r]
  have h: "len \<noteq> 0 \<longrightarrow> fst (hd units) = addr"
    using r by (subst (asm) ee_erase_sectors.simps)
      (auto simp: Let_def word_neq_0_conv split: option.splits if_splits)
  have u: "b = spec_unit_size (get_chip_block_info c) a \<and>
      a AND NOT (b - 1) = erase_cmd_base (get_chip_block_info c) a"
    if "(a, b) \<in> set units" for a b
    using p that unit_cmd_address [of c a] by (auto simp: erase_unit_size_spec)
  then have "map (\<lambda>(a, b). BusWrite (a AND NOT (b - 1)) (0x00300030 AND ee_cmd_mask s)) units =
      map (\<lambda>(a, b). BusWrite (erase_cmd_base (get_chip_block_info c) a)
                      (0x00300030 AND ee_cmd_mask s)) units"
    by (intro map_cong) auto
  with p r have "ee_erase_sectors (get_chip_block_info c) addr len t s =
       Some (units, t + 1000000 * int (length units), a', 0,
             s\<lparr>bus := bus s @ map (\<lambda>(a, b). BusWrite (erase_cmd_base (get_chip_block_info c) a)
                                          (0x00300030 AND ee_cmd_mask s)) units\<rparr>)"
    by simp
  moreover have "\<forall>(a, b) \<in> set units. b = spec_unit_size (get_chip_block_info c) a"
    using u by auto
  ultimately show ?thesis
    using p h by blast
qed

lemma sub_sector_base:
  fixes a :: u32
  shows "(a - a mod 0x1000) div 0x8000 = a div 0x8000"
    and "(a - a mod 0x1000) mod 0x8000 div 0x1000 = a mod 0x8000 div 0x1000"
    and "(a - a mod 0x8000) div 0x8000 = a div 0x8000"
    and "(a - a mod 0x8000) mod 0x8000 = 0"
proof -
  have p: "a AND NOT (mask n) = push_bit n (drop_bit n a)" for n
    by (rule bit_eqI) (auto simp add: bit_simps)
  have r12: "a - a mod 0x1000 = push_bit 12 (drop_bit 12 a)"
    using and_not_mask_round [of a 12] p [of 12] by simp
  have r15: "a - a mod 0x8000 = push_bit 15 (drop_bit 15 a)"
    using and_not_mask_round [of a 15] p [of 15] by simp
  have d: "x div 0x8000 = drop_bit 15 x" "x mod 0x8000 = take_bit 15 x"
    "x div 0x1000 = drop_bit 12 x" for x :: u32
    by (simp_all add: drop_bit_eq_div take_bit_eq_mod)
  show "(a - a mod 0x1000) div 0x8000 = a div 0x8000"
    unfolding r12 unfolding d by (rule bit_eqI) (auto simp add: bit_simps dest: bit_imp_le_length)
  show "(a - a mod 0x1000) mod 0x8000 div 0x1000 = a mod 0x8000 div 0x1000"
    unfolding r12 unfolding d by (rule bit_eqI) (auto simp add: bit_simps dest: bit_imp_le_length)
  show "(a - a mod 0x8000) div 0x8000 = a div 0x8000"
    unfolding r15 unfolding d by (rule bit_eqI) (auto simp add: bit_simps dest: bit_imp_le_length)
  show "(a - a mod 0x8000) mod 0x8000 = 0"
    unfolding r15 unfolding d by (rule bit_eqI) (auto simp add: bit_simps dest: bit_imp_le_length)
qed

lemma unit_start_cmd_base:
  "unit_start (get_chip_block_info c) (erase_cmd_base (get_chip_block_info c) a) =
     unit_start (get_chip_block_info c) a"
proof -
  have m: "(a - a mod 0x1000) - (a - a mod 0x1000) mod 0x8000 = a - a mod 0x8000"
    using sub_sector_base(1) [of a]
    by (simp only: minus_mod_eq_div_mult)
  show ?thesis
    using table_geometry [of c] m
    by (simp add: unit_start_def erase_cmd_base_def sub_sector_base)
qed

text \<open>
  The erase units of the boot block of the default geometry, and the sector loop
  entered at 0x800 with length 0x2000.
\<close>

lemma default_boot_units:
  "unit_start (get_chip_block_info 0) 0 = 0"
  "unit_start (get_chip_block_info 0) 0x1000 = 0"
  "unit_start (get_chip_block_info 0) 0x2000 = 0x2000"
  "unit_start (get_chip_block_info 0) 0x3000 = 0x3000"
  "unit_start (get_chip_block_info 0) 0x4000 = 0x4000"
  "unit_start (get_chip_block_info 0) 0x5000 = 0x4000"
  "unit_start (get_chip_block_info 0) 0x6000 = 0x4000"
  "unit_start (get_chip_block_info 0) 0x7000 = 0x4000"
  "unit_start (get_chip_block_info 0) 0x8000 = 0x8000"
  "unit_start (get_chip_block_info 0) 0x800 = 0"
  "unit_start (get_chip_block_info 0) 0x27FF = 0x2000"
  by (simp_all add: unit_start_def default_geometry upt_rec)

lemma default_unit_sizes:
  "erase_unit_size (get_chip_block_info 0) 0 = Some 0x2000"
  "erase_unit_size (get_chip_block_info 0) 0x2000 = Some 0x1000"
  unfolding erase_unit_size_spec
  by (simp_all add: spec_unit_size_def default_geometry boot_unit_sectors_1d)

lemma units_800:
  "spec_unit_size (get_chip_block_info 0) 0x800 = 0x2000"
  "erase_cmd_base (get_chip_block_info 0) 0x800 = 0"
  by (simp_all add: spec_unit_size_def erase_cmd_base_def default_geometry boot_unit_sectors_1d)

lemma erase_800:
  "ee_erase_sectors (get_chip_block_info 0) 0x800 0x2000 1000000 erase_ready =
     Some ([(0x800, 0x2000)], 2000000, 0x2800, 0, ee_write_word 0 0x00300030 erase_ready)"
  by (simp add: ee_erase_sectors_step units_800 ee_erase_sectors_none)

text \<open>
  C4. The unit sizes are computed as the claim says (lemma \<open>ee_erase_sectors_sizes\<close>),
  but the units erased need not cover the requested range. The length left is reduced
  by the whole size of a unit also when the current address lies inside the unit, and
  the address advances by that size from where it is. On a part with the default
  geometry (boot block 0, map 0x1d: units of 8K, 4K, 4K and 16K words), \<open>ee_erase\<close> in
  sector mode at 0x800 with length 0x2000, a range inside the device, returns 0 on the
  quiet platform. The bus shows a single sector-erase command, at address 0. The unit
  at 0 is 0x2000 words long, and the words 0x2000 to 0x27FF of the requested range
  lie in the next unit, the one that begins at 0x2000, for which no command is written.
\<close>

theorem ee_erase_range_uncovered:
  "unat (0x800 :: u32) + unat (0x2000 :: u32) \<le> unat EE_DEVICE_SIZE \<and>
   ee_erase quiet_platform MX_ERASE_MODE_SECTOR 0x800 0x2000 0 enabled_driver =
     Some (0, ee_read_mode quiet_platform
                ((wait_state (ee_write_word 0 0x00300030 erase_ready) 2)
                   \<lparr>ee_status := EE_STATUS_NORMAL\<rparr>)) \<and>
   bus (ee_read_mode quiet_platform
          ((wait_state (ee_write_word 0 0x00300030 erase_ready) 2)
             \<lparr>ee_status := EE_STATUS_NORMAL\<rparr>)) =
     [BusWrite 0x555 0xaa, BusWrite 0x2aa 0x55, BusWrite 0x555 0x90,
      BusRead 0, BusRead 1, BusWrite 0x555 0xf0,
      BusWrite 0 0xf0, BusWrite 0x555 0xf0,
      BusWrite 0x555 0xaa, BusWrite 0x2aa 0x55, BusWrite 0x555 0x80,
      BusWrite 0x555 0xaa, BusWrite 0x2aa 0x9055,
      BusWrite 0 0x30, BusRead 0, BusRead 0, BusWrite 0x555 0xf0] \<and>
   sector_erase_commands (ee_read_mode quiet_platform
          ((wait_state (ee_write_word 0 0x00300030 erase_ready) 2)
             \<lparr>ee_status := EE_STATUS_NORMAL\<rparr>)) = [0] \<and>
   erase_unit_size (get_chip_block_info 0) 0 = Some 0x2000 \<and>
   erase_unit_size (get_chip_block_info 0) 0x2000 = Some 0x1000 \<and>
   unit_start (get_chip_block_info 0) 0 = 0 \<and>
   unit_start (get_chip_block_info 0) 0x800 = 0 \<and>
   unit_start (get_chip_block_info 0) 0x27FF = 0x2000 \<and>
   (0x800 :: u32) \<le> 0x27FF \<and> (0x27FF :: u32) < 0x800 + 0x2000"
proof -
  have a: "(0x800 :: u32) < EE_DEVICE_SIZE"
    by (simp add: EE_DEVICE_SIZE_def)
  have e: "ee_erase_sectors (get_chip_block_info 0) 0x800 (if (0x2000 :: u32) = 0 then 1 else 0x2000)
      1000000 erase_ready =
     Some ([(0x800, 0x2000)], 2000000, 0x2800, 0, ee_write_word 0 0x00300030 erase_ready)"
    using erase_800 by simp
  have r: "ee_erase quiet_platform MX_ERASE_MODE_SECTOR 0x800 0x2000 0 enabled_driver =
     Some (0, ee_read_mode quiet_platform
                ((wait_state (ee_write_word 0 0x00300030 erase_ready) 2)
                   \<lparr>ee_status := EE_STATUS_NORMAL\<rparr>))"
    by (rule quiet_erase [OF a e]) simp
  have b: "bus (ee_read_mode quiet_platform
          ((wait_state (ee_write_word 0 0x00300030 erase_ready) 2)
             \<lparr>ee_status := EE_STATUS_NORMAL\<rparr>)) =
     [BusWrite 0x555 0xaa, BusWrite 0x2aa 0x55, BusWrite 0x555 0x90,
      BusRead 0, BusRead 1, BusWrite 0x555 0xf0,
      BusWrite 0 0xf0, BusWrite 0x555 0xf0,
      BusWrite 0x555 0xaa, BusWrite 0x2aa 0x55, BusWrite 0x555 0x80,
      BusWrite 0x555 0xaa, BusWrite 0x2aa 0x9055,
      BusWrite 0 0x30, BusRead 0, BusRead 0, BusWrite 0x555 0xf0]"
    by (simp add: ee_read_mode_eq wait_state_def ee_write_word_def erase_ready_def
        enabled_driver_def driver_init_def numeral_2_eq_2)
  have m: "ee_cmd_mask (ee_read_mode quiet_platform
          ((wait_state (ee_write_word 0 0x00300030 erase_ready) 2)
             \<lparr>ee_status := EE_STATUS_NORMAL\<rparr>)) = 0xffff"
    by (simp add: ee_read_mode_eq wait_state_def ee_write_word_def erase_ready_def
        enabled_driver_def driver_init_def)
  have c: "sector_erase_commands (ee_read_mode quiet_platform
          ((wait_state (ee_write_word 0 0x00300030 erase_ready) 2)
             \<lparr>ee_status := EE_STATUS_NORMAL\<rparr>)) = [0]"
    unfolding sector_erase_commands_def b m by simp
  show ?thesis
    using r b c by (simp add: default_boot_units default_unit_sizes EE_DEVICE_SIZE_def)
qed

text \<open>
  C5, as stated, fails. On an M29F800FT (id 0x000122D6, boot block 15, map 0x71) the
  erase unit that starts at 0x78000 is 0x4000 words long, so it encloses 0x79000. For
  the current address 0x79000 the computed unit size is 0x3000, and the sector-erase
  command is written at 0x79000: neither the start of the enclosing unit nor the
  address rounded down to a multiple of the computed size, which are both 0x78000.
\<close>

theorem erase_address_counterexample:
  "ee_erase_sectors (get_chip_block_info 0x000122D6) 0x79000 1 1000000 enabled_driver =
     Some ([(0x79000, 0x3000)], 2000000, 0x79000, 0,
           enabled_driver\<lparr>bus := [BusWrite 0x79000 0x30]\<rparr>) \<and>
   (0x79000 :: u32) div 0x3000 * 0x3000 = 0x78000 \<and>
   spec_unit_size (get_chip_block_info 0x000122D6) 0x78000 = 0x4000"
  using erase_79000 by (simp add: unit_79000)

text \<open>
  C5, amended. For every sector-mode erase, the address written with the sector-erase
  command word is the current address with the bits of (unit size - 1) cleared, the
  unit size being the computed one. For a common block this is the current address
  rounded down to the block boundary; inside the boot block it is the current address
  rounded down to the boundary of the boot sub-sector that holds it (\<open>erase_cmd_base\<close>),
  which never lies above the current address.
\<close>

theorem ee_erase_sectors_cmd_address:
  assumes "ee_erase_sectors (get_chip_block_info c) addr len t s = Some (units, t', a', l', s')"
  shows "bus s' = bus s @ map (\<lambda>(a, b). BusWrite (erase_cmd_base (get_chip_block_info c) a)
                                   (0x00300030 AND ee_cmd_mask s)) units \<and>
     (\<forall>(a, b) \<in> set units.
        b = spec_unit_size (get_chip_block_info c) a \<and>
        erase_cmd_base (get_chip_block_info c) a = a AND NOT (b - 1) \<and>
        erase_cmd_base (get_chip_block_info c) a \<le> a)"
proof -
  note p = ee_erase_sectors_units [OF assms]
  have u: "b = spec_unit_size (get_chip_block_info c) a \<and>
      a AND NOT (b - 1) = erase_cmd_base (get_chip_block_info c) a"
    if "(a, b) \<in> set units" for a b
    using p that unit_cmd_address [of c a] by (auto simp: erase_unit_size_spec)
  then have "map (\<lambda>(a, b). BusWrite (a AND NOT (b - 1)) (0x00300030 AND ee_cmd_mask s)) units =
      map (\<lambda>(a, b). BusWrite (erase_cmd_base (get_chip_block_info c) a)
                      (0x00300030 AND ee_cmd_mask s)) units"
    by (intro map_cong) auto
  with p u show ?thesis
    by (auto simp: erase_cmd_base_le)
qed

theorem ee_erase_sectors_cmd_address_witness:
  "ee_erase_sectors (get_chip_block_info 0x000122D6) 0x79000 1 1000000 enabled_driver =
     Some ([(0x79000, 0x3000)], 2000000, 0x79000, 0,
           enabled_driver\<lparr>bus := [BusWrite 0x79000 0x30]\<rparr>) \<and>
   erase_cmd_base (get_chip_block_info 0x000122D6) 0x79000 = 0x79000 AND NOT (0x3000 - 1) \<and>
   erase_cmd_base (get_chip_block_info 0x000122D6) 0x79000 \<le> 0x79000"
  using ee_erase_sectors_cmd_address [OF erase_79000] erase_79000 by simp

text \<open>
  C6. For every address below the device size, \<open>ee_erase\<close> in sector mode with
  length 0 is the identification, the status clear, the five unlock cycles, exactly one
  sector-erase command cycle, the completion poll with a timeout of two seconds and the
  return to read mode; the sector loop, entered with the length 1 that replaces 0,
  queues exactly one unit.
\<close>

theorem ee_erase_zero_length:
  assumes "addr < EE_DEVICE_SIZE"
  shows "ee_erase p MX_ERASE_MODE_SECTOR addr 0 verbose s =
     (let (part1, part2, s1) = ee_id p (stack_junk p) (stack_junk p) s;
          cb = get_chip_block_info part1;
          s2 = ee_erase_unlock (ee_status_clear p s1);
          s3 = ee_write_word (erase_cmd_base cb addr) 0x00300030 s2
      in case ee_wait_for_done_status p 2000000 verbose EE_MODE_ERASE s3 of
           None \<Rightarrow> None
         | Some (rc, s4) \<Rightarrow> Some (rc, ee_read_mode p s4)) \<and>
     ee_erase_sectors (get_chip_block_info c) addr 1 t s =
       Some ([(addr, spec_unit_size (get_chip_block_info c) addr)], t + 1000000, addr, 0,
             ee_write_word (erase_cmd_base (get_chip_block_info c) addr) 0x00300030 s)"
  using assms
  by (simp add: ee_erase_sector_mode ee_erase_sectors_one split_beta Let_def)

theorem ee_erase_zero_length_witness:
  "(0x1000 :: u32) < EE_DEVICE_SIZE \<and>
   ee_erase quiet_platform MX_ERASE_MODE_SECTOR 0x1000 0 0 enabled_driver =
     Some (0, ee_read_mode quiet_platform
                ((wait_state (ee_write_word 0x1000 0x00300030 erase_ready) 2)
                   \<lparr>ee_status := EE_STATUS_NORMAL\<rparr>)) \<and>
   ee_erase_sectors (get_chip_block_info 0) 0x1000 1 1000000 erase_ready =
     Some ([(0x1000, 0x1000)], 2000000, 0x1000, 0, ee_write_word 0x1000 0x00300030 erase_ready)"
proof -
  have h: "(0x1000 :: u32) < EE_DEVICE_SIZE"
    by (simp add: EE_DEVICE_SIZE_def)
  from ee_erase_zero_length [OF h, where p = quiet_platform and verbose = 0
      and s = enabled_driver and c = 0 and t = 1000000]
    ee_erase_zero_length [OF h, where p = quiet_platform and verbose = 0
      and s = erase_ready and c = 0 and t = 1000000] h
  show ?thesis
    by (simp add: quiet_id quiet_erase_ready quiet_wait default_units)
qed

subsection \<open>The range checks\<close>

text \<open>
  What the range checks do achieve: \<open>ee_read\<close> and \<open>ee_write\<close> return 1 without a
  bus cycle when the sum of address and count exceeds the device size and fits 32 bits,
  and go on when it does not exceed it; \<open>ee_erase\<close> returns 1 without an erase
  command when the address it starts from is not below the device size.
\<close>

lemma range_check_rejects:
  assumes "unat EE_DEVICE_SIZE < unat addr + unat count" and "unat addr + unat count < 2 ^ 32"
  shows "ee_read p addr count s = (1, [], s)" and "ee_write p addr mem count s = Some (1, s)"
proof -
  from assms(2) have "unat (addr + count) = unat addr + unat count"
    by (simp add: unat_word_ariths)
  with assms(1) have "EE_DEVICE_SIZE < addr + count"
    by (simp add: word_less_nat_alt)
  then show "ee_read p addr count s = (1, [], s)" and "ee_write p addr mem count s = Some (1, s)"
    by (simp_all add: ee_read_def ee_write_def)
qed

lemma range_check_passes:
  assumes "unat addr + unat count \<le> unat EE_DEVICE_SIZE"
  shows "fst (ee_read p addr count s) = 0"
    and "ee_write p addr mem count s =
      ee_write_loop p mem (if ee_mode s = EE_MODE_32 then 4 else 2) addr 0 count 0 s"
proof -
  have "unat EE_DEVICE_SIZE < 2 ^ 32"
    by (simp add: EE_DEVICE_SIZE_def)
  with assms have "unat (addr + count) = unat addr + unat count"
    by (simp add: unat_word_ariths)
  with assms have "\<not> EE_DEVICE_SIZE < addr + count"
    by (simp add: word_less_nat_alt)
  then show "fst (ee_read p addr count s) = 0"
    and "ee_write p addr mem count s =
      ee_write_loop p mem (if ee_mode s = EE_MODE_32 then 4 else 2) addr 0 count 0 s"
    by (simp_all add: ee_read_def ee_write_def split_beta)
qed

lemma erase_start_rejected:
  assumes "EE_DEVICE_SIZE \<le> addr" and "mode \<le> MX_ERASE_MODE_SECTOR"
  shows "ee_erase p mode addr len verbose s =
     Some (1, ee_read_mode p (ee_status_clear p
                (snd (snd (ee_id p (stack_junk p) (stack_junk p) s)))))"
  using assms
  by (simp add: ee_erase_def split_beta Let_def leD word_gt_0
      ee_erase_loop.simps [where addr = addr and len = 1]
      ee_erase_loop.simps [where addr = addr and len = len])

text \<open>
  C1. The range checks let ranges beyond the device pass. The sum \<open>addr + count\<close> of
  \<open>ee_read\<close> and \<open>ee_write\<close> is a 32-bit sum: for \<open>addr = 0xFFFFFFFF\<close> and
  \<open>count = 2\<close> it wraps to 1, \<open>ee_read\<close> returns 0 after two read cycles and
  \<open>ee_write\<close> enters its programming loop. \<open>ee_erase\<close> tests only the address it
  starts from: in sector mode at 0xF8000 with length 0x8001 it returns 0 on the quiet
  platform, having written a sector-erase command at 0x100000, which is beyond the
  device.
\<close>

theorem range_check_escapes:
  "unat EE_DEVICE_SIZE < unat (0xFFFFFFFF :: u32) + unat (2 :: u32) \<and>
   fst (ee_read p 0xFFFFFFFF 2 s) = 0 \<and>
   bus (snd (snd (ee_read p 0xFFFFFFFF 2 s))) = bus s @ [BusRead 0xFFFFFFFF, BusRead 0] \<and>
   ee_write p 0xFFFFFFFF mem 2 s =
     ee_write_loop p mem (if ee_mode s = EE_MODE_32 then 4 else 2) 0xFFFFFFFF 0 2 0 s \<and>
   EE_DEVICE_SIZE < 0xF8000 + 0x8001 \<and>
   ee_erase quiet_platform MX_ERASE_MODE_SECTOR 0xF8000 0x8001 0 enabled_driver =
     Some (0, ee_read_mode quiet_platform
                ((wait_state (ee_write_word 0x100000 0x00300030
                                (ee_write_word 0xF8000 0x00300030 erase_ready)) 2)
                   \<lparr>ee_status := EE_STATUS_NORMAL\<rparr>)) \<and>
   BusWrite 0x100000 0x30 \<in> set (bus (ee_read_mode quiet_platform
                ((wait_state (ee_write_word 0x100000 0x00300030
                                (ee_write_word 0xF8000 0x00300030 erase_ready)) 2)
                   \<lparr>ee_status := EE_STATUS_NORMAL\<rparr>)))"
proof (intro conjI)
  show "unat EE_DEVICE_SIZE < unat (0xFFFFFFFF :: u32) + unat (2 :: u32)"
    by (simp add: EE_DEVICE_SIZE_def)
  show "fst (ee_read p 0xFFFFFFFF 2 s) = 0"
    by (simp add: ee_read_def EE_DEVICE_SIZE_def split_beta)
  show "bus (snd (snd (ee_read p 0xFFFFFFFF 2 s))) = bus s @ [BusRead 0xFFFFFFFF, BusRead 0]"
    by (simp add: ee_read_def EE_DEVICE_SIZE_def split_beta ee_read_word_def Let_def)
  show "ee_write p 0xFFFFFFFF mem 2 s =
     ee_write_loop p mem (if ee_mode s = EE_MODE_32 then 4 else 2) 0xFFFFFFFF 0 2 0 s"
    by (simp add: ee_write_def EE_DEVICE_SIZE_def)
  show "EE_DEVICE_SIZE < 0xF8000 + 0x8001"
    by (simp add: EE_DEVICE_SIZE_def)
  have a: "(0xF8000 :: u32) < EE_DEVICE_SIZE"
    by (simp add: EE_DEVICE_SIZE_def)
  have e: "ee_erase_sectors (get_chip_block_info 0) 0xF8000 (if (0x8001 :: u32) = 0 then 1 else 0x8001)
      1000000 erase_ready =
     Some ([(0xF8000, 0x8000), (0x100000, 0x8000)], 3000000, 0x100000, 0,
           ee_write_word 0x100000 0x00300030 (ee_write_word 0xF8000 0x00300030 erase_ready))"
    using erase_past_end by simp
  show "ee_erase quiet_platform MX_ERASE_MODE_SECTOR 0xF8000 0x8001 0 enabled_driver =
     Some (0, ee_read_mode quiet_platform
                ((wait_state (ee_write_word 0x100000 0x00300030
                                (ee_write_word 0xF8000 0x00300030 erase_ready)) 2)
                   \<lparr>ee_status := EE_STATUS_NORMAL\<rparr>))"
    by (rule quiet_erase [OF a e]) simp
  show "BusWrite 0x100000 0x30 \<in> set (bus (ee_read_mode quiet_platform
                ((wait_state (ee_write_word 0x100000 0x00300030
                                (ee_write_word 0xF8000 0x00300030 erase_ready)) 2)
                   \<lparr>ee_status := EE_STATUS_NORMAL\<rparr>)))"
    by (simp add: ee_read_mode_eq wait_state_def ee_write_word_def erase_ready_def
        enabled_driver_def driver_init_def)
qed

subsection \<open>Program, verify and retry\<close>

lemma must_clear_bits:
  "((v XOR r) AND m) AND NOT r = 0 \<longleftrightarrow> ((v XOR r) AND m) AND (v :: u32) = 0"
proof -
  have "((v XOR r) AND m) AND NOT r = ((v XOR r) AND m) AND v"
    by (rule bit_eqI) (auto simp add: bit_simps)
  then show ?thesis
    by simp
qed

lemma ee_write_loop_step:
  assumes "count \<noteq> 0"
  shows "ee_write_loop p mem ws addr off count try_count s =
     (case ee_program_word p addr (ee_write_value (ee_mode s) mem off) s of
        None \<Rightarrow> None
      | Some (rc, s1) \<Rightarrow>
          if rc \<noteq> 0 then
            (if try_count < 2 then ee_write_loop p mem ws addr off count (try_count + 1) s1
             else Some (3, s1))
          else
            (let val = ee_write_value (ee_mode s) mem off;
                 rvalue = data_pins p (nreads s1);
                 s2 = snd (ee_read_word p addr s1);
                 differing = (val XOR rvalue) AND ee_cmd_mask s1
             in if differing = 0 then
                  ee_write_loop p mem ws (addr + 1) (off + ws) (count - 1) 0 s2
                else if differing AND val = 0 \<and> try_count < 2 then
                  ee_write_loop p mem ws addr off count (try_count + 1) s2
                else Some (4, s2)))"
proof -
  from assms have pos: "0 < count"
    by (simp add: word_neq_0_conv)
  define val where "val = ee_write_value (ee_mode s) mem off"
  show ?thesis
  proof (cases "ee_program_word p addr val s")
    case None
    then show ?thesis
      unfolding val_def by (subst ee_write_loop.simps) (simp add: pos)
  next
    case (Some r)
    obtain rc s1 where r: "r = (rc, s1)"
      by (cases r)
    have rd: "ee_read_word p addr s1 =
        (data_pins p (nreads s1), snd (ee_read_word p addr s1))"
      and mk: "ee_cmd_mask (snd (ee_read_word p addr s1)) = ee_cmd_mask s1"
      by (simp_all add: ee_read_word_def)
    from Some r have pw: "ee_program_word p addr (ee_write_value (ee_mode s) mem off) s =
        Some (rc, s1)"
      by (simp add: val_def)
    show ?thesis
    proof (cases "rc = 0")
      case False
      then show ?thesis
        by (subst ee_write_loop.simps) (simp add: pos pw)
    next
      case True
      show ?thesis
        apply (subst ee_write_loop.simps)
        apply (simp only: pos pw Let_def if_True option.case prod.case True)
        apply (subst rd)
        apply (simp only: prod.case mk must_clear_bits)
        apply simp
        done
    qed
  qed
qed

lemma program_quiet:
  "ee_program_word quiet_platform addr w s =
     Some (0, (wait_state (ee_program_cycles addr w s) 2)\<lparr>ee_status := EE_STATUS_NORMAL\<rparr>)"
proof -
  have "1 < (ucast (360 :: u32) :: u64)"
    by simp
  then show ?thesis
    unfolding ee_program_word_def ee_program_cycles_def by (rule quiet_wait)
qed

lemma program_slow:
  assumes "nreads s = 0 \<or> nreads s = 3"
  shows "ee_program_word slow_cell_platform addr w s =
     Some (0, (wait_state (ee_program_cycles addr w s) 2)\<lparr>ee_status := EE_STATUS_NORMAL\<rparr>)"
proof -
  define s1 where "s1 = ee_program_cycles addr w s"
  have n: "nreads s1 = 0 \<or> nreads s1 = 3"
    using assms by (simp add: s1_def ee_program_cycles_def ee_write_word_def)
  have st: "wait_status slow_cell_platform s1 k = 0" if "k \<le> 2" for k
    using n that by (auto simp add: wait_status_def slow_cell_platform_def)
  have us: "wait_usecs slow_cell_platform s1 k = word_of_nat k" for k
    by (simp add: wait_usecs_def slow_cell_platform_def)
  have se: "wait_settled slow_cell_platform s1 k \<longleftrightarrow> k = 2" if "k \<le> 2" for k
    using that by (auto simp add: wait_settled_def st)
  have fa: "wait_fails slow_cell_platform s1 (Suc 0) = 0"
    by (simp add: wait_fails_def st)
  have "\<forall>k<2. wait_usecs slow_cell_platform s1 k < ucast (360 :: u32) \<and>
      \<not> wait_settled slow_cell_platform s1 k"
  proof (intro allI impI)
    fix k :: nat
    assume "k < 2"
    then have "k = 0 \<or> k = 1" by arith
    then show "wait_usecs slow_cell_platform s1 k < ucast (360 :: u32) \<and>
        \<not> wait_settled slow_cell_platform s1 k"
      by (auto simp add: us se)
  qed
  then have "ee_wait_for_done_status slow_cell_platform 360 0 EE_MODE_PROGRAM s1 =
      Some (0, (wait_state s1 2)\<lparr>ee_status := EE_STATUS_NORMAL\<rparr>)"
    by (intro wait_done_result) (simp_all add: se fa)
  then show ?thesis
    by (simp add: ee_program_word_def s1_def ee_program_cycles_def)
qed

lemma cell_value: "ee_write_value EE_MODE_16_LOW cell_data 0 = 0x1234"
  by (simp add: ee_write_value_def load16_def cell_data_def)

lemma ones_value: "ee_write_value EE_MODE_16_LOW (\<lambda>k. 0xFF) 0 = 0xFFFF"
  by (simp add: ee_write_value_def load16_def)

lemma programmed_fields:
  "nreads ((wait_state (ee_program_cycles addr word s) 2)\<lparr>ee_status := v\<rparr>) = nreads s + 2"
  "ee_cmd_mask ((wait_state (ee_program_cycles addr word s) 2)\<lparr>ee_status := v\<rparr>) = ee_cmd_mask s"
  by (simp_all add: wait_state_def ee_program_cycles_def ee_write_word_def)

lemma verified_fields:
  "nreads (verified p addr word s) = nreads s + 3"
  "ee_cmd_mask (verified p addr word s) = ee_cmd_mask s"
  "ee_mode (verified p addr word s) = ee_mode s"
  by (simp_all add: verified_def ee_read_word_def wait_state_def ee_program_cycles_def
      ee_write_word_def)

lemma enabled_fields:
  "nreads enabled_driver = 0" "ee_cmd_mask enabled_driver = 0xffff"
  "ee_mode enabled_driver = EE_MODE_16_LOW"
  by (simp_all add: enabled_driver_def driver_init_def)

lemma slow_pins:
  "data_pins slow_cell_platform k = (if k = 2 then 0xFFFF else if k = 5 then 0x1234 else 0)"
  by (simp add: slow_cell_platform_def)

lemma quiet_pins: "data_pins quiet_platform k = 0"
  by (simp add: quiet_platform_def)

lemma slow_second_try:
  "ee_write_loop slow_cell_platform cell_data 2 0x100 0 1 1
       (verified slow_cell_platform 0x100 0x1234 enabled_driver) =
     Some (0, ee_read_mode slow_cell_platform
                (verified slow_cell_platform 0x100 0x1234
                   (verified slow_cell_platform 0x100 0x1234 enabled_driver)))"
  by (subst ee_write_loop_step)
     (simp_all add: program_slow enabled_fields verified_fields cell_value Let_def slow_pins
        programmed_fields verified_def [symmetric] ee_write_loop.simps [where count = 0])

text \<open>
  C3. One turn of the write loop for a word, entered with \<open>try_count\<close> retries made.
  When the completion monitor reports a failure, the word is programmed again if
  \<open>try_count < 2\<close>, and the write fails with 3 otherwise. When the word read back
  differs from the intended one under the command mask, the word is programmed again
  in place only if no differing bit is set in the intended word (every differing bit
  must still go from 1 to 0) and \<open>try_count < 2\<close>; in every other case, so whenever a
  bit would have to go from 0 to 1, the write fails with 4 at once. A word that
  verifies moves the loop to the next word with \<open>try_count = 0\<close>.
\<close>

theorem ee_write_retry_rule:
  assumes "count \<noteq> 0"
  shows "ee_write_loop p mem ws addr off count try_count s =
     (case ee_program_word p addr (ee_write_value (ee_mode s) mem off) s of
        None \<Rightarrow> None
      | Some (rc, s1) \<Rightarrow>
          if rc \<noteq> 0 then
            (if try_count < 2 then ee_write_loop p mem ws addr off count (try_count + 1) s1
             else Some (3, s1))
          else
            (let val = ee_write_value (ee_mode s) mem off;
                 rvalue = data_pins p (nreads s1);
                 s2 = snd (ee_read_word p addr s1);
                 differing = (val XOR rvalue) AND ee_cmd_mask s1
             in if differing = 0 then
                  ee_write_loop p mem ws (addr + 1) (off + ws) (count - 1) 0 s2
                else if differing AND val = 0 \<and> try_count < 2 then
                  ee_write_loop p mem ws addr off count (try_count + 1) s2
                else Some (4, s2)))"
  using assms by (rule ee_write_loop_step)

theorem ee_write_retry_rule_witness:
  "(1 :: u32) \<noteq> 0 \<and>
   ee_write_loop slow_cell_platform cell_data 2 0x100 0 1 0 enabled_driver =
     Some (0, ee_read_mode slow_cell_platform
                (verified slow_cell_platform 0x100 0x1234
                   (verified slow_cell_platform 0x100 0x1234 enabled_driver))) \<and>
   ee_write_loop quiet_platform (\<lambda>k. 0xFF) 2 0x100 0 1 0 enabled_driver =
     Some (4, verified quiet_platform 0x100 0xFFFF enabled_driver)"
proof -
  have h: "(1 :: u32) \<noteq> 0"
    by simp
  from ee_write_retry_rule [OF h, of slow_cell_platform cell_data 2 "0x100" 0 0 enabled_driver]
  have "ee_write_loop slow_cell_platform cell_data 2 0x100 0 1 0 enabled_driver =
      ee_write_loop slow_cell_platform cell_data 2 0x100 0 1 1
       (verified slow_cell_platform 0x100 0x1234 enabled_driver)"
    by (simp add: program_slow enabled_fields cell_value Let_def slow_pins
        programmed_fields verified_def [symmetric])
  moreover
  from ee_write_retry_rule [OF h, of quiet_platform "\<lambda>k. 0xFF" 2 "0x100" 0 0 enabled_driver]
  have "ee_write_loop quiet_platform (\<lambda>k. 0xFF) 2 0x100 0 1 0 enabled_driver =
      Some (4, verified quiet_platform 0x100 0xFFFF enabled_driver)"
    by (simp add: program_quiet enabled_fields ones_value Let_def quiet_pins
        programmed_fields verified_def [symmetric])
  ultimately show ?thesis
    by (simp add: slow_second_try)
qed

end
